theory Spec2Isabelle
  imports Complex_Main "HOL-Library.Word"
begin

unbundle bit_operations_syntax

section \<open>The LED cube controller (stats-gl.cpp)\<close>

text \<open>
  The controller keeps a target state that \<^verbatim>\<open>POST /update\<close> mutates under
  \<^verbatim>\<open>state_mtx\<close>, and a live state that the render loop moves towards the target once
  per frame. This theory embeds the request handler (with the hand-written JSON
  helpers it calls), the colour helpers and the interpolation block of the render loop.

  Conventions of the embedding:
  \<^item> in the request handler and the colour helpers a C++ \<^verbatim>\<open>float\<close> is a
    \<^typ>\<open>real\<close>: rounding, infinities and NaN are outside that part of the model,
    arithmetic is exact. The interpolation block is given twice: over the reals, to
    follow a value over many frames, and in binary32 arithmetic, with rounding,
    infinities and NaN, for the statements about a single pass;
  \<^item> a \<^verbatim>\<open>std::string\<close> is a \<^typ>\<open>string\<close>, positions are \<^typ>\<open>nat\<close>, and
    \<^verbatim>\<open>std::string::npos\<close> is \<^const>\<open>None\<close>;
  \<^item> \<^verbatim>\<open>std::stof\<close> belongs to the C++ library, not to this program: every function
    that calls it takes it as the parameter \<open>stof\<close>, of type
    \<^typ>\<open>string \<Rightarrow> real option\<close>, where \<^const>\<open>None\<close> stands for the exception it
    throws. The general theorems hold for every such reader; the concrete examples use
    the decimal reader \<open>stof_dec\<close> below;
  \<^item> the global variables of the target state are the fields of a record that the
    handler takes and returns.
\<close>

subsection \<open>Constants\<close>

definition API_TOKEN :: string where
  "API_TOKEN = ''1234567890''"

definition ANIMSTEP :: real where
  "ANIMSTEP = 40"

definition SEGMENTS :: nat where
  "SEGMENTS = 10"

subsection \<open>compat::clamp\<close>

definition clamp :: "real \<Rightarrow> real \<Rightarrow> real \<Rightarrow> real" where
  "clamp v lo hi = (if v < lo then lo else if hi < v then hi else v)"

subsection \<open>String primitives of the C++ library\<close>

text \<open>The double quote character.\<close>

definition DQ :: char where
  "DQ = CHR 0x22"

text \<open>\<^verbatim>\<open>std::string::find(pat, pos)\<close>: the first position at or after \<open>pos\<close> where
  \<open>pat\<close> occurs.\<close>

primrec find_at :: "string \<Rightarrow> nat \<Rightarrow> string \<Rightarrow> nat option" where
  "find_at pat i [] = (if pat = [] then Some i else None)"
| "find_at pat i (c # cs) =
     (if take (length pat) (c # cs) = pat then Some i else find_at pat (Suc i) cs)"

definition str_find :: "string \<Rightarrow> string \<Rightarrow> nat \<Rightarrow> nat option" where
  "str_find s pat pos = (if length s < pos then None else find_at pat pos (drop pos s))"

text \<open>\<^verbatim>\<open>std::isspace\<close> in the C locale: space, \<^verbatim>\<open>\t \n \v \f \r\<close>.\<close>

definition is_space :: "char \<Rightarrow> bool" where
  "is_space c = (c = CHR '' '' \<or> c = CHR 0x09 \<or> c = CHR 0x0A \<or> c = CHR 0x0B \<or> c = CHR 0x0C
     \<or> c = CHR 0x0D)"

definition is_digit :: "char \<Rightarrow> bool" where
  "is_digit c = (of_char (CHR ''0'') \<le> (of_char c :: nat) \<and> (of_char c :: nat) \<le> of_char (CHR ''9''))"

text \<open>
  A reader of decimal literals, to instantiate \<open>stof\<close> in the examples: leading white
  space, an optional sign, digits with an optional fraction, an optional exponent; the
  rest of the string is ignored, and a string with no digit there is refused, as
  \<^verbatim>\<open>std::stof\<close> does. It does not read hexadecimal literals or the spellings of infinity
  and NaN, whose values are no real numbers.
\<close>

definition digits_val :: "string \<Rightarrow> nat" where
  "digits_val ds = foldl (\<lambda>n c. 10 * n + (of_char c - of_char (CHR ''0''))) 0 ds"

definition read_sign :: "string \<Rightarrow> bool \<times> string" where
  "read_sign s = (case s of
       [] \<Rightarrow> (False, [])
     | c # r \<Rightarrow> if c = CHR ''-'' then (True, r) else if c = CHR ''+'' then (False, r) else (False, s))"

definition read_exponent :: "string \<Rightarrow> real" where
  "read_exponent s = (case s of
       [] \<Rightarrow> 1
     | c # r \<Rightarrow>
         if c = CHR ''e'' \<or> c = CHR ''E'' then
           (let (neg, r') = read_sign r; ds = takeWhile is_digit r' in
            if ds = [] then 1
            else if neg then 1 / 10 ^ digits_val ds else 10 ^ digits_val ds)
         else 1)"

definition stof_dec :: "string \<Rightarrow> real option" where
  "stof_dec s =
     (let (neg, s2) = read_sign (dropWhile is_space s);
          ip = takeWhile is_digit s2;
          s3 = dropWhile is_digit s2;
          fp = (case s3 of [] \<Rightarrow> [] | c # r \<Rightarrow> if c = CHR ''.'' then takeWhile is_digit r else []);
          s4 = (case s3 of [] \<Rightarrow> [] | c # r \<Rightarrow> if c = CHR ''.'' then dropWhile is_digit r else s3)
      in if ip = [] \<and> fp = [] then None
         else Some ((if neg then - 1 else 1)
                * (real (digits_val ip) + real (digits_val fp) / 10 ^ length fp)
                * read_exponent s4))"

subsection \<open>Minimal JSON helpers\<close>

definition is_json_ws :: "char \<Rightarrow> bool" where
  "is_json_ws c = (c = CHR '' '' \<or> c = CHR 0x0A \<or> c = CHR 0x0D \<or> c = CHR 0x09)"

definition skip_ws :: "string \<Rightarrow> nat \<Rightarrow> nat" where
  "skip_ws s i = i + length (takeWhile is_json_ws (drop i s))"

definition extract_json_string :: "string \<Rightarrow> string \<Rightarrow> string option" where
  "extract_json_string body key =
     (case str_find body (DQ # key @ [DQ]) 0 of
        None \<Rightarrow> None
      | Some k \<Rightarrow>
         (case str_find body '':'' k of
            None \<Rightarrow> None
          | Some colon \<Rightarrow>
             (let i = skip_ws body (colon + 1) in
              if length body \<le> i \<or> body ! i \<noteq> DQ then None
              else
                (let i' = i + 1;
                     j = i' + length (takeWhile (\<lambda>c. c \<noteq> DQ) (drop i' body)) in
                 if length body \<le> j then None
                 else Some (take (j - i') (drop i' body))))))"

definition number_end :: "char \<Rightarrow> bool" where
  "number_end c = (c = CHR '','' \<or> c = CHR ''}'' \<or> c = CHR '']'' \<or> c = CHR 0x0A \<or> c = CHR 0x0D)"

definition extract_json_number :: "(string \<Rightarrow> real option) \<Rightarrow> string \<Rightarrow> string \<Rightarrow> real option" where
  "extract_json_number stof body key =
     (case str_find body (DQ # key @ [DQ]) 0 of
        None \<Rightarrow> None
      | Some k \<Rightarrow>
         (case str_find body '':'' k of
            None \<Rightarrow> None
          | Some colon \<Rightarrow>
             (let i = skip_ws body (colon + 1);
                  j = i + length (takeWhile (\<lambda>c. \<not> number_end c) (drop i body)) in
              stof (take (j - i) (drop i body)))))"

text \<open>\<^verbatim>\<open>std::getline(ss, val, ',')\<close> called until it fails: the pieces between commas;
  a read that meets the end of the stream without having taken a character fails.\<close>

fun getlines :: "string \<Rightarrow> string \<Rightarrow> string list" where
  "getlines acc [] = (if acc = [] then [] else [rev acc])"
| "getlines acc (c # cs) =
     (if c = CHR '','' then rev acc # getlines [] cs else getlines (c # acc) cs)"

definition trim :: "string \<Rightarrow> string" where
  "trim val = rev (dropWhile is_space (rev (dropWhile is_space val)))"

text \<open>
  The loop of \<^verbatim>\<open>extract_json_array_floats\<close>. It writes into the caller's array as it
  goes, so the array is returned in both outcomes: a value that \<open>stof\<close> refuses ends
  the loop with \<^verbatim>\<open>false\<close> after the earlier entries have been written.
\<close>

fun fill_floats ::
  "(string \<Rightarrow> real option) \<Rightarrow> string list \<Rightarrow> nat \<Rightarrow> nat \<Rightarrow> real list \<Rightarrow> bool \<times> real list \<times> nat" where
  "fill_floats stof [] maxN idx outArr = (True, outArr, idx)"
| "fill_floats stof (v # vs) maxN idx outArr =
     (if \<not> idx < maxN then (True, outArr, idx)
      else
        (let val = trim v in
         if val = [] then fill_floats stof vs maxN idx outArr
         else
           (case stof val of
              None \<Rightarrow> (False, outArr, 0)
            | Some x \<Rightarrow> fill_floats stof vs maxN (idx + 1) (outArr[idx := x]))))"

definition extract_json_array_floats ::
  "(string \<Rightarrow> real option) \<Rightarrow> string \<Rightarrow> string \<Rightarrow> real list \<Rightarrow> nat \<Rightarrow> bool \<times> real list \<times> nat" where
  "extract_json_array_floats stof body key outArr maxN =
     (case str_find body (DQ # key @ [DQ]) 0 of
        None \<Rightarrow> (False, outArr, 0)
      | Some k \<Rightarrow>
         (case (str_find body ''['' k, str_find body '']'' k) of
            (Some lb, Some rb) \<Rightarrow>
              if rb \<le> lb then (False, outArr, 0)
              else fill_floats stof (getlines [] (take (rb - lb - 1) (drop (lb + 1) body))) maxN 0 outArr
          | _ \<Rightarrow> (False, outArr, 0)))"

subsection \<open>Colours\<close>

type_synonym rgb = "real \<times> real \<times> real"

definition hex2 :: "char \<Rightarrow> int" where
  "hex2 c =
     (let n = (of_char c :: int) in
      if of_char (CHR ''0'') \<le> n \<and> n \<le> of_char (CHR ''9'') then n - of_char (CHR ''0'')
      else if of_char (CHR ''a'') \<le> n \<and> n \<le> of_char (CHR ''f'') then 10 + (n - of_char (CHR ''a''))
      else if of_char (CHR ''A'') \<le> n \<and> n \<le> of_char (CHR ''F'') then 10 + (n - of_char (CHR ''A''))
      else - 1)"

definition parse_hex_color :: "string \<Rightarrow> rgb option" where
  "parse_hex_color hex =
     (let h = (if hex \<noteq> [] \<and> hd hex = CHR ''#'' then tl hex else hex) in
      if length h \<noteq> 6 then None
      else
        (let r1 = hex2 (h ! 0); r2 = hex2 (h ! 1);
             g1 = hex2 (h ! 2); g2 = hex2 (h ! 3);
             b1 = hex2 (h ! 4); b2 = hex2 (h ! 5) in
         if r1 < 0 \<or> r2 < 0 \<or> g1 < 0 \<or> g2 < 0 \<or> b1 < 0 \<or> b2 < 0 then None
         else
           (let R = push_bit 4 r1 OR r2;
                G = push_bit 4 g1 OR g2;
                B = push_bit 4 b1 OR b2 in
            Some (real_of_int R / 255, real_of_int G / 255, real_of_int B / 255))))"

definition heat_colour_to_bg :: "real \<Rightarrow> rgb" where
  "heat_colour_to_bg colour01_100 =
     (let c = clamp colour01_100 0 100 in
      if c \<le> 33 then (let t = c / 33 in (0, t * 0.5, 0.4 + t * 0.4))
      else if c \<le> 66 then (let t = (c - 33) / 33 in (t, 0.6 + t * 0.4, 1 - t))
      else (let t = (c - 66) / 34 in (1, 1 - t, 0)))"

subsection \<open>The target state and the handler of POST /update\<close>

record target_state =
  tmodeStr :: string
  tcolourLevel :: real
  tgeometryMode :: int
  tgeomStr :: string
  tsegment :: "real list"
  telementWidth :: real
  tpercent :: real
  telementColorRGB :: rgb
  tbackgroundColorRGB :: rgb
  thaveElementColor :: bool
  thaveBackgroundColor :: bool
  updateTime :: real

text \<open>The values the globals are initialised with (arrays of static storage are zero).\<close>

definition initial_target :: target_state where
  "initial_target =
     \<lparr> tmodeStr = ''heat'', tcolourLevel = 30, tgeometryMode = 0, tgeomStr = ''ring'',
       tsegment = replicate SEGMENTS 0, telementWidth = 20, tpercent = 1,
       telementColorRGB = (1, 1, 1), tbackgroundColorRGB = (0, 0, 1),
       thaveElementColor = False, thaveBackgroundColor = False, updateTime = - 10 \<rparr>"

text \<open>The handler's local flags, next to the globals it mutates.\<close>

record handler = target_state +
  any :: bool
  gotColour :: bool
  gotElementColor :: bool
  gotBackgroundColor :: bool

record response =
  status :: nat
  content :: string

definition enter :: "target_state \<Rightarrow> handler" where
  "enter s = target_state.extend s
     \<lparr> any = False, gotColour = False, gotElementColor = False, gotBackgroundColor = False \<rparr>"

definition upd_mode :: "string \<Rightarrow> handler \<Rightarrow> handler" where
  "upd_mode b h =
     (case extract_json_string b ''mode'' of
        Some mode \<Rightarrow> h\<lparr>tmodeStr := mode, any := True\<rparr>
      | None \<Rightarrow> h)"

definition upd_colour :: "(string \<Rightarrow> real option) \<Rightarrow> string \<Rightarrow> handler \<Rightarrow> handler" where
  "upd_colour stof b h =
     (case extract_json_number stof b ''colour'' of
        Some col \<Rightarrow> h\<lparr>tcolourLevel := col, gotColour := True, any := True\<rparr>
      | None \<Rightarrow> h)"

definition upd_geometry :: "string \<Rightarrow> handler \<Rightarrow> handler" where
  "upd_geometry b h =
     (case extract_json_string b ''geometry'' of
        Some geom \<Rightarrow>
          (if geom = ''ring'' then h\<lparr>tgeometryMode := 0, tgeomStr := ''ring''\<rparr>
           else if geom = ''circle'' then h\<lparr>tgeometryMode := 1, tgeomStr := ''circle''\<rparr>
           else if geom = ''square'' then h\<lparr>tgeometryMode := 2, tgeomStr := ''square''\<rparr>
           else if geom = ''triangle'' then h\<lparr>tgeometryMode := 3, tgeomStr := ''triangle''\<rparr>
           else if geom = ''x'' then h\<lparr>tgeometryMode := 4, tgeomStr := ''x''\<rparr>
           else h)\<lparr>any := True\<rparr>
      | None \<Rightarrow> h)"

definition upd_segments :: "(string \<Rightarrow> real option) \<Rightarrow> string \<Rightarrow> handler \<Rightarrow> handler" where
  "upd_segments stof b h =
     (case extract_json_array_floats stof b ''segments'' (tsegment h) SEGMENTS of
        (ok, arr, nseg) \<Rightarrow> if ok then h\<lparr>tsegment := arr, any := True\<rparr> else h\<lparr>tsegment := arr\<rparr>)"

definition upd_width :: "(string \<Rightarrow> real option) \<Rightarrow> string \<Rightarrow> handler \<Rightarrow> handler" where
  "upd_width stof b h =
     (case extract_json_number stof b ''width'' of
        Some w \<Rightarrow> h\<lparr>telementWidth := clamp w 0 100, any := True\<rparr>
      | None \<Rightarrow> h)"

definition upd_percent :: "(string \<Rightarrow> real option) \<Rightarrow> string \<Rightarrow> handler \<Rightarrow> handler" where
  "upd_percent stof b h =
     (case extract_json_number stof b ''percent'' of
        Some pct \<Rightarrow> h\<lparr>tpercent := clamp pct 0 1, any := True\<rparr>
      | None \<Rightarrow> h)"

definition upd_elementColor :: "string \<Rightarrow> handler \<Rightarrow> handler" where
  "upd_elementColor b h =
     (case extract_json_string b ''elementColor'' of
        Some ehex \<Rightarrow>
          (case parse_hex_color ehex of
             Some rgb \<Rightarrow>
               h\<lparr>telementColorRGB := rgb, thaveElementColor := True,
                 gotElementColor := True, any := True\<rparr>
           | None \<Rightarrow> h)
      | None \<Rightarrow> h)"

definition upd_backgroundColor :: "string \<Rightarrow> handler \<Rightarrow> handler" where
  "upd_backgroundColor b h =
     (case extract_json_string b ''backgroundColor'' of
        Some bhex \<Rightarrow>
          (case parse_hex_color bhex of
             Some rgb \<Rightarrow>
               h\<lparr>tbackgroundColorRGB := rgb, thaveBackgroundColor := True,
                 gotBackgroundColor := True, any := True\<rparr>
           | None \<Rightarrow> h)
      | None \<Rightarrow> h)"

text \<open>The mode enforcement that follows the field blocks: the heat branch, and the
  branch of every other mode string.\<close>

definition enforce_mode :: "handler \<Rightarrow> handler" where
  "enforce_mode h =
     (if tmodeStr h = ''heat'' then
        (let h1 = h\<lparr>tgeometryMode := 0, tgeomStr := ''ring'', telementColorRGB := (1, 1, 1),
                    thaveElementColor := True\<rparr> in
         if \<not> gotBackgroundColor h1
         then h1\<lparr>tbackgroundColorRGB := heat_colour_to_bg (tcolourLevel h1),
                 thaveBackgroundColor := True\<rparr>
         else h1)
      else
        (if \<not> gotBackgroundColor h \<and> gotColour h
         then h\<lparr>tbackgroundColorRGB := heat_colour_to_bg (tcolourLevel h),
                thaveBackgroundColor := True\<rparr>
         else h))"

text \<open>The field blocks in the order of the source.\<close>

definition apply_fields :: "(string \<Rightarrow> real option) \<Rightarrow> string \<Rightarrow> handler \<Rightarrow> handler" where
  "apply_fields stof b h =
     upd_backgroundColor b (upd_elementColor b (upd_percent stof b (upd_width stof b
       (upd_segments stof b (upd_geometry b (upd_colour stof b (upd_mode b h)))))))"

text \<open>
  The handler: \<open>token\<close> is the value of the header \<^verbatim>\<open>X-API-Token\<close>, \<open>b\<close> the request
  body, \<open>t\<close> the render clock (the global \<^verbatim>\<open>t\<close>) when the request is served, \<open>s\<close> the
  target state before. It returns the response and the target state after. No call in
  the \<^verbatim>\<open>try\<close> block can throw here (the helpers catch what \<open>stof\<close> throws and every
  \<^verbatim>\<open>substr\<close> starts inside the string), so the \<^verbatim>\<open>catch\<close> branch has no counterpart.
\<close>

definition post_update ::
  "(string \<Rightarrow> real option) \<Rightarrow> string \<Rightarrow> string \<Rightarrow> real \<Rightarrow> target_state \<Rightarrow> response \<times> target_state" where
  "post_update stof token b t s =
     (if token \<noteq> API_TOKEN then (\<lparr>status = 401, content = ''''\<rparr>, s)
      else
        (let h = enforce_mode (apply_fields stof b (enter s)) in
         if \<not> any h
         then (\<lparr>status = 400, content = ''No valid fields''\<rparr>, target_state.truncate h)
         else (\<lparr>status = 200, content = ''OK''\<rparr>, target_state.truncate (h\<lparr>updateTime := t\<rparr>))))"

subsection \<open>The live state and the interpolation block of the render loop\<close>

record live_state =
  colourLevel :: real
  segment :: "real list"
  geometryMode :: int
  modeStr :: string
  elementWidth :: real
  percent :: real
  elementColorRGB :: rgb
  backgroundColorRGB :: rgb
  haveElementColor :: bool
  haveBackgroundColor :: bool

definition initial_live :: live_state where
  "initial_live =
     \<lparr> colourLevel = 30, segment = replicate SEGMENTS 0, geometryMode = 0, modeStr = ''heat'',
       elementWidth = 20, percent = 1, elementColorRGB = (1, 1, 1),
       backgroundColorRGB = (0, 0, 1), haveElementColor = False, haveBackgroundColor = False \<rparr>"

text \<open>The frame's time step: the time since the last frame, clamped to 100 ms.\<close>

definition frame_dt :: "real \<Rightarrow> real" where
  "frame_dt elapsed = clamp elapsed 0 0.1"

text \<open>The statement \<^verbatim>\<open>x += compat::clamp(tx - x, -step, step)\<close>, which the block repeats
  for every interpolated value, here with exact arithmetic over the reals; \<open>chase32\<close>
  below is the statement in binary32.\<close>

definition chase :: "real \<Rightarrow> real \<Rightarrow> real \<Rightarrow> real" where
  "chase step x tx = x + clamp (tx - x) (- step) step"

definition chase_rgb :: "real \<Rightarrow> rgb \<Rightarrow> rgb \<Rightarrow> rgb" where
  "chase_rgb step c tc =
     (case (c, tc) of
        ((r, g, b), (tr, tg, tb)) \<Rightarrow> (chase step r tr, chase step g tg, chase step b tb))"

definition interpolate :: "real \<Rightarrow> target_state \<Rightarrow> live_state \<Rightarrow> live_state" where
  "interpolate dt tg lv =
     lv\<lparr> colourLevel := chase (ANIMSTEP * dt) (colourLevel lv) (tcolourLevel tg),
         segment := map (\<lambda>i. chase (ANIMSTEP * dt) (segment lv ! i) (tsegment tg ! i)) [0..<SEGMENTS],
         geometryMode := tgeometryMode tg,
         modeStr := tmodeStr tg,
         elementWidth := chase (ANIMSTEP * dt) (elementWidth lv) (telementWidth tg),
         percent := chase (ANIMSTEP * dt) (percent lv) (tpercent tg),
         elementColorRGB := chase_rgb (2 * dt) (elementColorRGB lv) (telementColorRGB tg),
         backgroundColorRGB := chase_rgb (2 * dt) (backgroundColorRGB lv) (tbackgroundColorRGB tg),
         haveElementColor := thaveElementColor tg,
         haveBackgroundColor := thaveBackgroundColor tg \<rparr>"

subsection \<open>Binary32 arithmetic\<close>

text \<open>
  The interpolation block computes in \<^verbatim>\<open>float\<close>, the IEEE 754 binary32 format. A
  binary32 value is a finite number, an infinity or NaN; a finite value is kept as the
  real number it denotes (the two zeros are one value: they compare equal and no
  operation below tells them apart). Every operation computes the exact result and
  rounds it to the nearest binary32 number, ties to the even significand.
\<close>

datatype f32 = Num real | PInf | NInf | NaN

text \<open>Rounding a real to the nearest integer, ties to even.\<close>

definition rne :: "real \<Rightarrow> int" where
  "rne r = (let f = \<lfloor>r\<rfloor>; d = r - of_int f in
     if d < 1 / 2 then f else if 1 / 2 < d then f + 1 else if even f then f else f + 1)"

text \<open>A significand has 24 bits: it is an integer below \<open>SIG\<close>.\<close>

definition SIG :: real where
  "SIG = 2 ^ 24"

text \<open>The spacing of the subnormal numbers, the smallest spacing of the format.\<close>

definition min_ulp :: real where
  "min_ulp = 1 / 2 ^ 149"

text \<open>The magnitude from which a rounded result is an infinity.\<close>

definition HUGE32 :: real where
  "HUGE32 = 2 ^ 128"

text \<open>
  The spacing of the binary32 numbers around a magnitude \<open>m\<close>: starting from \<open>u\<close>, the
  spacing doubles until \<open>m\<close> is below \<open>SIG\<close> times the spacing, at most \<open>k\<close> times
  (253 doublings lead from \<open>min_ulp\<close> to the spacing of the largest numbers).
\<close>

fun ulp32 :: "nat \<Rightarrow> real \<Rightarrow> real \<Rightarrow> real" where
  "ulp32 0 m u = u"
| "ulp32 (Suc k) m u = (if m < u * SIG then u else ulp32 k m (2 * u))"

definition round_with :: "nat \<Rightarrow> real \<Rightarrow> real \<Rightarrow> real" where
  "round_with k m u = (let w = ulp32 k m u in of_int (rne (m / w)) * w)"

definition round_mag :: "real \<Rightarrow> real" where
  "round_mag m = round_with 253 m min_ulp"

definition round32 :: "real \<Rightarrow> f32" where
  "round32 x = (let y = round_mag \<bar>x\<bar> in
     if HUGE32 \<le> y then (if 0 < x then PInf else NInf)
     else Num (if x < 0 then - y else y))"

fun f_neg :: "f32 \<Rightarrow> f32" where
  "f_neg (Num a) = Num (- a)"
| "f_neg PInf = NInf"
| "f_neg NInf = PInf"
| "f_neg NaN = NaN"

fun f_add :: "f32 \<Rightarrow> f32 \<Rightarrow> f32" where
  "f_add (Num a) (Num b) = round32 (a + b)"
| "f_add NaN y = NaN"
| "f_add x NaN = NaN"
| "f_add PInf NInf = NaN"
| "f_add NInf PInf = NaN"
| "f_add PInf y = PInf"
| "f_add NInf y = NInf"
| "f_add x PInf = PInf"
| "f_add x NInf = NInf"

definition f_sub :: "f32 \<Rightarrow> f32 \<Rightarrow> f32" where
  "f_sub x y = f_add x (f_neg y)"

fun f_mul :: "f32 \<Rightarrow> f32 \<Rightarrow> f32" where
  "f_mul (Num a) (Num b) = round32 (a * b)"
| "f_mul NaN y = NaN"
| "f_mul x NaN = NaN"
| "f_mul PInf (Num b) = (if b = 0 then NaN else if 0 < b then PInf else NInf)"
| "f_mul NInf (Num b) = (if b = 0 then NaN else if 0 < b then NInf else PInf)"
| "f_mul (Num a) PInf = (if a = 0 then NaN else if 0 < a then PInf else NInf)"
| "f_mul (Num a) NInf = (if a = 0 then NaN else if 0 < a then NInf else PInf)"
| "f_mul PInf PInf = PInf"
| "f_mul PInf NInf = NInf"
| "f_mul NInf PInf = NInf"
| "f_mul NInf NInf = PInf"

text \<open>The comparisons \<^verbatim>\<open><\<close> and \<^verbatim>\<open><=\<close>: false whenever an operand is NaN.\<close>

fun f_lt :: "f32 \<Rightarrow> f32 \<Rightarrow> bool" where
  "f_lt (Num a) (Num b) = (a < b)"
| "f_lt NaN y = False"
| "f_lt x NaN = False"
| "f_lt x NInf = False"
| "f_lt PInf y = False"
| "f_lt NInf y = True"
| "f_lt x PInf = True"

fun f_le :: "f32 \<Rightarrow> f32 \<Rightarrow> bool" where
  "f_le (Num a) (Num b) = (a \<le> b)"
| "f_le NaN y = False"
| "f_le x NaN = False"
| "f_le NInf y = True"
| "f_le x PInf = True"
| "f_le x NInf = False"
| "f_le PInf y = False"

text \<open>\<^verbatim>\<open>compat::clamp<float>\<close>: a NaN value passes both comparisons and is returned.\<close>

definition clamp32 :: "f32 \<Rightarrow> f32 \<Rightarrow> f32 \<Rightarrow> f32" where
  "clamp32 v lo hi = (if f_lt v lo then lo else if f_lt hi v then hi else v)"

subsection \<open>The interpolation block in binary32\<close>

text \<open>The globals the block reads and the globals it writes, as binary32 values.\<close>

record target32 =
  tmodeStr32 :: string
  tcolourLevel32 :: f32
  tgeometryMode32 :: int
  tsegment32 :: "f32 list"
  telementWidth32 :: f32
  tpercent32 :: f32
  telementColorRGB32 :: "f32 \<times> f32 \<times> f32"
  tbackgroundColorRGB32 :: "f32 \<times> f32 \<times> f32"
  thaveElementColor32 :: bool
  thaveBackgroundColor32 :: bool

record live32 =
  colourLevel32 :: f32
  segment32 :: "f32 list"
  geometryMode32 :: int
  modeStr32 :: string
  elementWidth32 :: f32
  percent32 :: f32
  elementColorRGB32 :: "f32 \<times> f32 \<times> f32"
  backgroundColorRGB32 :: "f32 \<times> f32 \<times> f32"
  haveElementColor32 :: bool
  haveBackgroundColor32 :: bool

definition initial_target32 :: target32 where
  "initial_target32 =
     \<lparr> tmodeStr32 = ''heat'', tcolourLevel32 = Num 30, tgeometryMode32 = 0,
       tsegment32 = replicate SEGMENTS (Num 0), telementWidth32 = Num 20, tpercent32 = Num 1,
       telementColorRGB32 = (Num 1, Num 1, Num 1),
       tbackgroundColorRGB32 = (Num 0, Num 0, Num 1),
       thaveElementColor32 = False, thaveBackgroundColor32 = False \<rparr>"

definition initial_live32 :: live32 where
  "initial_live32 =
     \<lparr> colourLevel32 = Num 30, segment32 = replicate SEGMENTS (Num 0), geometryMode32 = 0,
       modeStr32 = ''heat'', elementWidth32 = Num 20, percent32 = Num 1,
       elementColorRGB32 = (Num 1, Num 1, Num 1),
       backgroundColorRGB32 = (Num 0, Num 0, Num 1),
       haveElementColor32 = False, haveBackgroundColor32 = False \<rparr>"

definition ANIMSTEP32 :: f32 where
  "ANIMSTEP32 = Num 40"

text \<open>The frame's time step: clamped between \<^verbatim>\<open>0.0f\<close> and \<^verbatim>\<open>0.1f\<close>, the binary32
  number nearest to 0.1.\<close>

definition frame_dt32 :: "f32 \<Rightarrow> f32" where
  "frame_dt32 elapsed = clamp32 elapsed (Num 0) (Num (13421773 / 2 ^ 27))"

text \<open>The statement \<^verbatim>\<open>x += compat::clamp(tx - x, lo, hi)\<close>: a subtraction, the clamp, an
  addition, each rounded.\<close>

definition chase32 :: "f32 \<Rightarrow> f32 \<Rightarrow> f32 \<Rightarrow> f32 \<Rightarrow> f32" where
  "chase32 lo hi x tx = f_add x (clamp32 (f_sub tx x) lo hi)"

definition chase32_rgb ::
  "f32 \<Rightarrow> f32 \<Rightarrow> f32 \<times> f32 \<times> f32 \<Rightarrow> f32 \<times> f32 \<times> f32 \<Rightarrow> f32 \<times> f32 \<times> f32" where
  "chase32_rgb lo hi c tc =
     (case (c, tc) of
        ((r, g, b), (tr, tg, tb)) \<Rightarrow> (chase32 lo hi r tr, chase32 lo hi g tg, chase32 lo hi b tb))"

text \<open>The block: the bounds are \<^verbatim>\<open>-ANIMSTEP*dt\<close> and \<^verbatim>\<open>ANIMSTEP*dt\<close> for the scalars,
  \<^verbatim>\<open>-2.0f*dt\<close> and \<^verbatim>\<open>2.0f*dt\<close> for the colour channels, each a rounded product.\<close>

definition interpolate32 :: "f32 \<Rightarrow> target32 \<Rightarrow> live32 \<Rightarrow> live32" where
  "interpolate32 dt tg lv =
     lv\<lparr> colourLevel32 :=
           chase32 (f_mul (f_neg ANIMSTEP32) dt) (f_mul ANIMSTEP32 dt)
             (colourLevel32 lv) (tcolourLevel32 tg),
         segment32 :=
           map (\<lambda>i. chase32 (f_mul (f_neg ANIMSTEP32) dt) (f_mul ANIMSTEP32 dt)
                  (segment32 lv ! i) (tsegment32 tg ! i)) [0..<SEGMENTS],
         geometryMode32 := tgeometryMode32 tg,
         modeStr32 := tmodeStr32 tg,
         elementWidth32 :=
           chase32 (f_mul (f_neg ANIMSTEP32) dt) (f_mul ANIMSTEP32 dt)
             (elementWidth32 lv) (telementWidth32 tg),
         percent32 :=
           chase32 (f_mul (f_neg ANIMSTEP32) dt) (f_mul ANIMSTEP32 dt)
             (percent32 lv) (tpercent32 tg),
         elementColorRGB32 :=
           chase32_rgb (f_mul (f_neg (Num 2)) dt) (f_mul (Num 2) dt)
             (elementColorRGB32 lv) (telementColorRGB32 tg),
         backgroundColorRGB32 :=
           chase32_rgb (f_mul (f_neg (Num 2)) dt) (f_mul (Num 2) dt)
             (backgroundColorRGB32 lv) (tbackgroundColorRGB32 tg),
         haveElementColor32 := thaveElementColor32 tg,
         haveBackgroundColor32 := thaveBackgroundColor32 tg \<rparr>"

subsection \<open>Notions used in the statements\<close>

text \<open>The background colour a request supplies itself: the key is found with a string
  value, and the value is a hex colour. This is when the handler sets
  \<^verbatim>\<open>gotBackgroundColor\<close>.\<close>

definition explicit_background :: "string \<Rightarrow> rgb option" where
  "explicit_background b =
     (case extract_json_string b ''backgroundColor'' of
        None \<Rightarrow> None
      | Some bhex \<Rightarrow> parse_hex_color bhex)"

definition explicit_element :: "string \<Rightarrow> rgb option" where
  "explicit_element b =
     (case extract_json_string b ''elementColor'' of
        None \<Rightarrow> None
      | Some ehex \<Rightarrow> parse_hex_color ehex)"

text \<open>A helper returned a value.\<close>

definition present :: "'a option \<Rightarrow> bool" where
  "present x = (case x of None \<Rightarrow> False | Some v \<Rightarrow> True)"

text \<open>Whether the segments array of a request is read to its end; the array it is
  written to plays no part in the outcome.\<close>

definition segments_read :: "(string \<Rightarrow> real option) \<Rightarrow> string \<Rightarrow> bool" where
  "segments_read stof b =
     fst (extract_json_array_floats stof b ''segments'' (replicate SEGMENTS 0) SEGMENTS)"

text \<open>The fields the handler counts: the eight places where it sets \<^verbatim>\<open>any\<close>. A geometry
  key with any string value is one of them.\<close>

definition counted_field :: "(string \<Rightarrow> real option) \<Rightarrow> string \<Rightarrow> bool" where
  "counted_field stof b =
     (present (extract_json_string b ''mode'')
      \<or> present (extract_json_number stof b ''colour'')
      \<or> present (extract_json_string b ''geometry'')
      \<or> segments_read stof b
      \<or> present (extract_json_number stof b ''width'')
      \<or> present (extract_json_number stof b ''percent'')
      \<or> present (explicit_element b)
      \<or> present (explicit_background b))"

text \<open>The recognised fields in the words of the specification: as above, but a geometry
  value that names no known shape fails to parse and makes the field absent.\<close>

definition known_shape :: "string \<Rightarrow> bool" where
  "known_shape geom =
     (geom = ''ring'' \<or> geom = ''circle'' \<or> geom = ''square'' \<or> geom = ''triangle'' \<or> geom = ''x'')"

definition spec_recognized_field :: "(string \<Rightarrow> real option) \<Rightarrow> string \<Rightarrow> bool" where
  "spec_recognized_field stof b =
     (present (extract_json_string b ''mode'')
      \<or> present (extract_json_number stof b ''colour'')
      \<or> (case extract_json_string b ''geometry'' of None \<Rightarrow> False | Some geom \<Rightarrow> known_shape geom)
      \<or> segments_read stof b
      \<or> present (extract_json_number stof b ''width'')
      \<or> present (extract_json_number stof b ''percent'')
      \<or> present (explicit_element b)
      \<or> present (explicit_background b))"

text \<open>A colour whose channels are all between 0 and 1.\<close>

definition unit_rgb :: "rgb \<Rightarrow> bool" where
  "unit_rgb c = (case c of (r, g, b) \<Rightarrow> 0 \<le> r \<and> r \<le> 1 \<and> 0 \<le> g \<and> g \<le> 1 \<and> 0 \<le> b \<and> b \<le> 1)"

text \<open>The step property in the words of the claim, over the reals: from \<open>x\<close> to \<open>x'\<close>
  towards \<open>tx\<close> the value moves by at most \<open>step\<close>, ends between the old value and the
  target, and ends on the target when the target is within reach.\<close>

definition chased :: "real \<Rightarrow> real \<Rightarrow> real \<Rightarrow> real \<Rightarrow> bool" where
  "chased step x tx x' =
     (\<bar>x' - x\<bar> \<le> step \<and> min x tx \<le> x' \<and> x' \<le> max x tx \<and> (\<bar>tx - x\<bar> \<le> step \<longrightarrow> x' = tx))"

text \<open>A finite binary32 number: a real that rounding leaves as it is.\<close>

definition finite32 :: "f32 \<Rightarrow> bool" where
  "finite32 v = (case v of Num x \<Rightarrow> round32 x = Num x | _ \<Rightarrow> False)"




subsection \<open>A state used in the examples\<close>

text \<open>Custom mode with a square: the target state after the request
  \<^verbatim>\<open>{"mode":"custom","geometry":"square"}\<close> served at time 1 on the initial state.\<close>

definition custom_square :: target_state where
  "custom_square =
     initial_target\<lparr>tmodeStr := ''custom'', tgeometryMode := 2, tgeomStr := ''square'',
       updateTime := 1\<rparr>"

section \<open>Properties\<close>

subsection \<open>What each field block does to the values the statements are about\<close>

lemma enter_simps [simp]:
  "any (enter s) = False" "gotColour (enter s) = False" "gotBackgroundColor (enter s) = False"
  "tcolourLevel (enter s) = tcolourLevel s" "tbackgroundColorRGB (enter s) = tbackgroundColorRGB s"
  "tsegment (enter s) = tsegment s" "tmodeStr (enter s) = tmodeStr s"
  "telementWidth (enter s) = telementWidth s" "tpercent (enter s) = tpercent s"
  "telementColorRGB (enter s) = telementColorRGB s"
  by (simp_all add: enter_def target_state.defs)

lemma upd_mode_simps [simp]:
  "any (upd_mode b h) = (any h \<or> extract_json_string b ''mode'' \<noteq> None)"
  "gotColour (upd_mode b h) = gotColour h"
  "gotBackgroundColor (upd_mode b h) = gotBackgroundColor h"
  "tcolourLevel (upd_mode b h) = tcolourLevel h"
  "tbackgroundColorRGB (upd_mode b h) = tbackgroundColorRGB h"
  "tsegment (upd_mode b h) = tsegment h"
  "telementWidth (upd_mode b h) = telementWidth h"
  "tpercent (upd_mode b h) = tpercent h"
  "telementColorRGB (upd_mode b h) = telementColorRGB h"
  by (simp_all add: upd_mode_def split: option.splits)

lemma upd_colour_simps [simp]:
  "any (upd_colour stof b h) = (any h \<or> extract_json_number stof b ''colour'' \<noteq> None)"
  "gotColour (upd_colour stof b h) = (gotColour h \<or> extract_json_number stof b ''colour'' \<noteq> None)"
  "gotBackgroundColor (upd_colour stof b h) = gotBackgroundColor h"
  "tcolourLevel (upd_colour stof b h) =
     (case extract_json_number stof b ''colour'' of None \<Rightarrow> tcolourLevel h | Some col \<Rightarrow> col)"
  "tbackgroundColorRGB (upd_colour stof b h) = tbackgroundColorRGB h"
  "tsegment (upd_colour stof b h) = tsegment h"
  "telementWidth (upd_colour stof b h) = telementWidth h"
  "tpercent (upd_colour stof b h) = tpercent h"
  "telementColorRGB (upd_colour stof b h) = telementColorRGB h"
  by (simp_all add: upd_colour_def split: option.splits)

lemma upd_geometry_simps [simp]:
  "any (upd_geometry b h) = (any h \<or> extract_json_string b ''geometry'' \<noteq> None)"
  "gotColour (upd_geometry b h) = gotColour h"
  "gotBackgroundColor (upd_geometry b h) = gotBackgroundColor h"
  "tcolourLevel (upd_geometry b h) = tcolourLevel h"
  "tbackgroundColorRGB (upd_geometry b h) = tbackgroundColorRGB h"
  "tsegment (upd_geometry b h) = tsegment h"
  "telementWidth (upd_geometry b h) = telementWidth h"
  "tpercent (upd_geometry b h) = tpercent h"
  "telementColorRGB (upd_geometry b h) = telementColorRGB h"
  by (simp_all add: upd_geometry_def split: option.splits)

lemma fill_floats_ok:
  "fst (fill_floats stof vs maxN idx arr) = fst (fill_floats stof vs maxN idx arr')"
proof (induction vs arbitrary: idx arr arr')
  case Nil
  show ?case by simp
next
  case (Cons v vs)
  show ?case
  proof (cases "idx < maxN")
    case False
    then show ?thesis by simp
  next
    case True
    show ?thesis
    proof (cases "trim v = []")
      case True
      with \<open>idx < maxN\<close> Cons.IH [of idx arr arr'] show ?thesis by simp
    next
      case False
      show ?thesis
      proof (cases "stof (trim v)")
        case None
        with False \<open>idx < maxN\<close> show ?thesis by simp
      next
        case (Some x)
        with False \<open>idx < maxN\<close> Cons.IH [of "idx + 1" "arr[idx := x]" "arr'[idx := x]"]
        show ?thesis by simp
      qed
    qed
  qed
qed

lemma extract_json_array_floats_ok:
  "fst (extract_json_array_floats stof b key arr maxN) =
   fst (extract_json_array_floats stof b key arr' maxN)"
  by (auto simp: extract_json_array_floats_def fill_floats_ok [of _ _ _ _ arr arr']
      split: option.splits)

lemma upd_segments_simps [simp]:
  "any (upd_segments stof b h) = (any h \<or> segments_read stof b)"
  "gotColour (upd_segments stof b h) = gotColour h"
  "gotBackgroundColor (upd_segments stof b h) = gotBackgroundColor h"
  "tcolourLevel (upd_segments stof b h) = tcolourLevel h"
  "tbackgroundColorRGB (upd_segments stof b h) = tbackgroundColorRGB h"
  "telementWidth (upd_segments stof b h) = telementWidth h"
  "tpercent (upd_segments stof b h) = tpercent h"
  "telementColorRGB (upd_segments stof b h) = telementColorRGB h"
  using extract_json_array_floats_ok [of stof b "''segments''" "tsegment h" SEGMENTS "replicate SEGMENTS 0"]
  by (auto simp: upd_segments_def segments_read_def split: prod.splits)

lemma fill_floats_length:
  "length (fst (snd (fill_floats stof vs maxN idx arr))) = length arr"
proof (induction vs arbitrary: idx arr)
  case Nil
  show ?case by simp
next
  case (Cons v vs)
  show ?case
  proof (cases "idx < maxN \<and> trim v \<noteq> []")
    case False
    with Cons.IH [of idx arr] show ?thesis by auto
  next
    case True
    show ?thesis
    proof (cases "stof (trim v)")
      case None
      with True show ?thesis by simp
    next
      case (Some x)
      with True Cons.IH [of "idx + 1" "arr[idx := x]"] show ?thesis by simp
    qed
  qed
qed

lemma extract_json_array_floats_length:
  "length (fst (snd (extract_json_array_floats stof b key arr maxN))) = length arr"
  by (simp add: extract_json_array_floats_def fill_floats_length split: option.splits)

lemma upd_segments_length [simp]:
  "length (tsegment (upd_segments stof b h)) = length (tsegment h)"
  using extract_json_array_floats_length [of stof b "''segments''" "tsegment h" SEGMENTS]
  by (cases "extract_json_array_floats stof b ''segments'' (tsegment h) SEGMENTS")
     (simp add: upd_segments_def)

lemma upd_width_simps [simp]:
  "any (upd_width stof b h) = (any h \<or> extract_json_number stof b ''width'' \<noteq> None)"
  "gotColour (upd_width stof b h) = gotColour h"
  "gotBackgroundColor (upd_width stof b h) = gotBackgroundColor h"
  "tcolourLevel (upd_width stof b h) = tcolourLevel h"
  "tbackgroundColorRGB (upd_width stof b h) = tbackgroundColorRGB h"
  "telementWidth (upd_width stof b h) =
     (case extract_json_number stof b ''width'' of None \<Rightarrow> telementWidth h | Some w \<Rightarrow> clamp w 0 100)"
  "tpercent (upd_width stof b h) = tpercent h"
  "tsegment (upd_width stof b h) = tsegment h"
  "telementColorRGB (upd_width stof b h) = telementColorRGB h"
  by (simp_all add: upd_width_def split: option.splits)

lemma upd_percent_simps [simp]:
  "any (upd_percent stof b h) = (any h \<or> extract_json_number stof b ''percent'' \<noteq> None)"
  "gotColour (upd_percent stof b h) = gotColour h"
  "gotBackgroundColor (upd_percent stof b h) = gotBackgroundColor h"
  "tcolourLevel (upd_percent stof b h) = tcolourLevel h"
  "tbackgroundColorRGB (upd_percent stof b h) = tbackgroundColorRGB h"
  "telementWidth (upd_percent stof b h) = telementWidth h"
  "tpercent (upd_percent stof b h) =
     (case extract_json_number stof b ''percent'' of None \<Rightarrow> tpercent h | Some pct \<Rightarrow> clamp pct 0 1)"
  "tsegment (upd_percent stof b h) = tsegment h"
  "telementColorRGB (upd_percent stof b h) = telementColorRGB h"
  by (simp_all add: upd_percent_def split: option.splits)

lemma upd_elementColor_simps [simp]:
  "any (upd_elementColor b h) = (any h \<or> explicit_element b \<noteq> None)"
  "gotColour (upd_elementColor b h) = gotColour h"
  "gotBackgroundColor (upd_elementColor b h) = gotBackgroundColor h"
  "tcolourLevel (upd_elementColor b h) = tcolourLevel h"
  "tbackgroundColorRGB (upd_elementColor b h) = tbackgroundColorRGB h"
  "telementWidth (upd_elementColor b h) = telementWidth h"
  "tpercent (upd_elementColor b h) = tpercent h"
  "tsegment (upd_elementColor b h) = tsegment h"
  "telementColorRGB (upd_elementColor b h) =
     (case explicit_element b of None \<Rightarrow> telementColorRGB h | Some rgb \<Rightarrow> rgb)"
  by (simp_all add: upd_elementColor_def explicit_element_def split: option.splits)

lemma upd_backgroundColor_simps [simp]:
  "any (upd_backgroundColor b h) = (any h \<or> explicit_background b \<noteq> None)"
  "gotColour (upd_backgroundColor b h) = gotColour h"
  "gotBackgroundColor (upd_backgroundColor b h) = (gotBackgroundColor h \<or> explicit_background b \<noteq> None)"
  "tcolourLevel (upd_backgroundColor b h) = tcolourLevel h"
  "tbackgroundColorRGB (upd_backgroundColor b h) =
     (case explicit_background b of None \<Rightarrow> tbackgroundColorRGB h | Some rgb \<Rightarrow> rgb)"
  "telementWidth (upd_backgroundColor b h) = telementWidth h"
  "tpercent (upd_backgroundColor b h) = tpercent h"
  "tsegment (upd_backgroundColor b h) = tsegment h"
  "telementColorRGB (upd_backgroundColor b h) = telementColorRGB h"
  by (simp_all add: upd_backgroundColor_def explicit_background_def split: option.splits)

lemma apply_fields_any:
  "any (apply_fields stof b (enter s)) = counted_field stof b"
  by (simp add: apply_fields_def counted_field_def present_def split: option.splits)

lemma apply_fields_gotColour:
  "gotColour (apply_fields stof b (enter s)) = (extract_json_number stof b ''colour'' \<noteq> None)"
  by (simp add: apply_fields_def)

lemma apply_fields_gotBackgroundColor:
  "gotBackgroundColor (apply_fields stof b (enter s)) = (explicit_background b \<noteq> None)"
  by (simp add: apply_fields_def)

lemma apply_fields_tcolourLevel:
  "tcolourLevel (apply_fields stof b (enter s)) =
     (case extract_json_number stof b ''colour'' of None \<Rightarrow> tcolourLevel s | Some col \<Rightarrow> col)"
  by (simp add: apply_fields_def split: option.splits)

lemma apply_fields_tbackgroundColorRGB:
  "tbackgroundColorRGB (apply_fields stof b (enter s)) =
     (case explicit_background b of None \<Rightarrow> tbackgroundColorRGB s | Some rgb \<Rightarrow> rgb)"
  by (simp add: apply_fields_def split: option.splits)

lemma enforce_mode_any:
  "any (enforce_mode h) = any h"
  by (simp add: enforce_mode_def Let_def)

lemma enforce_mode_tmodeStr:
  "tmodeStr (enforce_mode h) = tmodeStr h"
  by (simp add: enforce_mode_def Let_def)

lemma enforce_mode_tcolourLevel:
  "tcolourLevel (enforce_mode h) = tcolourLevel h"
  by (simp add: enforce_mode_def Let_def)

lemma enforce_mode_width_percent:
  "telementWidth (enforce_mode h) = telementWidth h" "tpercent (enforce_mode h) = tpercent h"
  by (simp_all add: enforce_mode_def Let_def)

lemma apply_fields_telementWidth:
  "telementWidth (apply_fields stof b (enter s)) =
     (case extract_json_number stof b ''width'' of None \<Rightarrow> telementWidth s | Some w \<Rightarrow> clamp w 0 100)"
  by (simp add: apply_fields_def split: option.splits)

lemma apply_fields_tpercent:
  "tpercent (apply_fields stof b (enter s)) =
     (case extract_json_number stof b ''percent'' of None \<Rightarrow> tpercent s | Some pct \<Rightarrow> clamp pct 0 1)"
  by (simp add: apply_fields_def split: option.splits)

text \<open>The segment array keeps its length (10 in the program).\<close>

lemma post_update_tsegment_length:
  "length (tsegment (snd (post_update stof token b t s))) = length (tsegment s)"
  by (simp add: post_update_def Let_def target_state.defs enforce_mode_def apply_fields_def)

lemma clamp_in_range: "lo \<le> hi \<Longrightarrow> lo \<le> clamp v lo hi \<and> clamp v lo hi \<le> hi"
  by (simp add: clamp_def)

lemma post_update_accepted:
  assumes "post_update stof token b t s = (r, s')" and "status r = 200"
  shows "s' = target_state.truncate ((enforce_mode (apply_fields stof b (enter s)))\<lparr>updateTime := t\<rparr>)"
  using assms by (auto simp: post_update_def Let_def split: if_splits)

text \<open>The response depends on the body alone: the request is refused exactly when none
  of the eight field blocks has set \<^verbatim>\<open>any\<close>.\<close>

lemma post_update_response:
  "fst (post_update stof API_TOKEN b t s) =
     (if counted_field stof b then \<lparr>status = 200, content = ''OK''\<rparr>
      else \<lparr>status = 400, content = ''No valid fields''\<rparr>)"
  by (simp add: post_update_def Let_def enforce_mode_any apply_fields_any)

lemma custom_square_reached:
  \<open>snd (post_update stof_dec API_TOKEN ''{"mode":"custom","geometry":"square"}'' 1 initial_target)
   = custom_square\<close>
  by code_simp

subsection \<open>The request handler\<close>

text \<open>
  C1. The claim: a request is refused with "no valid fields" exactly when it has no
  recognised field, where a geometry value that names no known shape makes the geometry
  field absent. The handler sets \<^verbatim>\<open>any\<close> for every geometry key with a string value,
  after the chain of comparisons and whatever their outcome. So the body
  \<^verbatim>\<open>{"geometry":"hexagon"}\<close>, which has no recognised field in the words of the
  specification, is answered 200 "OK": in the state \<open>custom_square\<close> nothing changes
  but the time stamp, which is set to the time of the request.
\<close>

theorem unknown_geometry_accepted:
  \<open>\<not> spec_recognized_field stof_dec ''{"geometry":"hexagon"}''
   \<and> post_update stof_dec API_TOKEN ''{"geometry":"hexagon"}'' 5 custom_square
       = (\<lparr>status = 200, content = ''OK''\<rparr>, custom_square\<lparr>updateTime := 5\<rparr>)\<close>
  by code_simp

text \<open>
  C2. The claim: a refused request leaves the target state as it was. The handler
  tests \<^verbatim>\<open>any\<close> after the mode enforcement and after the segments have been written:
  the body \<^verbatim>\<open>{}\<close> on the initial state is refused with 400, and yet the background
  colour has become the heat colour of level 30 and both colour flags are set; the body
  \<^verbatim>\<open>{"segments":[1, 2.5, abc]}\<close> is refused with 400 after its first two entries have
  been stored.
\<close>

theorem rejected_update_changes_state:
  \<open>post_update stof_dec API_TOKEN ''{}'' 5 initial_target =
     (\<lparr>status = 400, content = ''No valid fields''\<rparr>,
      initial_target\<lparr>tbackgroundColorRGB := (0, 5 / 11, 42 / 55), thaveElementColor := True,
        thaveBackgroundColor := True\<rparr>)
   \<and> snd (post_update stof_dec API_TOKEN ''{}'' 5 initial_target) \<noteq> initial_target
   \<and> post_update stof_dec API_TOKEN ''{"segments":[1, 2.5, abc]}'' 5 custom_square =
     (\<lparr>status = 400, content = ''No valid fields''\<rparr>,
      custom_square\<lparr>tsegment := [1, 5 / 2, 0, 0, 0, 0, 0, 0, 0, 0]\<rparr>)\<close>
  by code_simp

text \<open>
  C3. After every accepted request (status 200) whose resulting mode is heat, the target
  geometry is ring (index 0, name "ring") and the target element colour is (1, 1, 1),
  whatever geometry and element colour the body asked for. The statement is about the
  target state the handler returns, so the enforcement happens with the mutation.
\<close>

theorem heat_mode_forces_ring_and_white:
  assumes "post_update stof token b t s = (r, s')"
    and "status r = 200"
    and "tmodeStr s' = ''heat''"
  shows "tgeometryMode s' = 0 \<and> tgeomStr s' = ''ring'' \<and> telementColorRGB s' = (1, 1, 1)"
  using assms
  by (auto simp: post_update_def Let_def enforce_mode_def target_state.defs split: if_splits)

theorem heat_mode_forces_ring_and_white_witness:
  \<open>post_update stof_dec API_TOKEN
      ''{"mode":"heat","geometry":"square","elementColor":"#00FF00"}'' 5 custom_square =
     (\<lparr>status = 200, content = ''OK''\<rparr>,
      custom_square\<lparr>tmodeStr := ''heat'', tgeometryMode := 0, tgeomStr := ''ring'',
        tbackgroundColorRGB := (0, 5 / 11, 42 / 55), thaveElementColor := True,
        thaveBackgroundColor := True, updateTime := 5\<rparr>)
   \<and> tgeometryMode custom_square = 2
   \<and> telementColorRGB (custom_square\<lparr>tmodeStr := ''heat'', tgeometryMode := 0, tgeomStr := ''ring'',
        tbackgroundColorRGB := (0, 5 / 11, 42 / 55), thaveElementColor := True,
        thaveBackgroundColor := True, updateTime := 5\<rparr>) = (1, 1, 1)\<close>
proof -
  have e: \<open>post_update stof_dec API_TOKEN
      ''{"mode":"heat","geometry":"square","elementColor":"#00FF00"}'' 5 custom_square =
     (\<lparr>status = 200, content = ''OK''\<rparr>,
      custom_square\<lparr>tmodeStr := ''heat'', tgeometryMode := 0, tgeomStr := ''ring'',
        tbackgroundColorRGB := (0, 5 / 11, 42 / 55), thaveElementColor := True,
        thaveBackgroundColor := True, updateTime := 5\<rparr>)\<close>
    by code_simp
  from heat_mode_forces_ring_and_white [OF e] e show ?thesis
    by (simp add: custom_square_def)
qed

text \<open>
  C4. For every accepted request whose resulting mode is heat: when the body supplies no
  background colour of its own, the resulting target background colour is
  \<open>heat_colour_to_bg\<close> of the resulting colour level and the background flag is set;
  when the body supplies one, that colour is the resulting background colour. The
  resulting colour level is the one of the body, or else the one the state had before,
  from an earlier request.
\<close>

theorem heat_background_follows_colour:
  assumes "post_update stof token b t s = (r, s')"
    and "status r = 200"
    and "tmodeStr s' = ''heat''"
  shows "(explicit_background b = None \<longrightarrow>
            tbackgroundColorRGB s' = heat_colour_to_bg (tcolourLevel s') \<and> thaveBackgroundColor s')
       \<and> (\<forall>rgb. explicit_background b = Some rgb \<longrightarrow> tbackgroundColorRGB s' = rgb)
       \<and> tcolourLevel s' =
           (case extract_json_number stof b ''colour'' of None \<Rightarrow> tcolourLevel s | Some col \<Rightarrow> col)"
proof -
  let ?h = "apply_fields stof b (enter s)"
  from assms(1,2) have s': "s' = target_state.truncate ((enforce_mode ?h)\<lparr>updateTime := t\<rparr>)"
    by (rule post_update_accepted)
  have heat: "tmodeStr ?h = ''heat''"
    using assms(3) by (simp add: s' target_state.defs enforce_mode_tmodeStr)
  have lvl: "tcolourLevel s' = tcolourLevel ?h"
    by (simp add: s' target_state.defs enforce_mode_tcolourLevel)
  have a: "explicit_background b = None \<longrightarrow>
      tbackgroundColorRGB s' = heat_colour_to_bg (tcolourLevel s') \<and> thaveBackgroundColor s'"
    using heat apply_fields_gotBackgroundColor [of stof b s]
    by (simp add: lvl) (simp add: s' target_state.defs enforce_mode_def Let_def)
  have b: "\<forall>rgb. explicit_background b = Some rgb \<longrightarrow> tbackgroundColorRGB s' = rgb"
    using heat apply_fields_gotBackgroundColor [of stof b s]
      apply_fields_tbackgroundColorRGB [of stof b s]
    by (auto simp: s' target_state.defs enforce_mode_def Let_def)
  show ?thesis using a b lvl by (simp add: apply_fields_tcolourLevel)
qed

theorem heat_background_follows_colour_witness:
  \<open>explicit_background ''{"colour":15}'' = None
   \<and> post_update stof_dec API_TOKEN ''{"colour":15}'' 5 initial_target =
       (\<lparr>status = 200, content = ''OK''\<rparr>,
        initial_target\<lparr>tcolourLevel := 15, tbackgroundColorRGB := heat_colour_to_bg 15,
          thaveElementColor := True, thaveBackgroundColor := True, updateTime := 5\<rparr>)
   \<and> explicit_background ''{"backgroundColor":"#110022"}'' = Some (1 / 15, 0, 2 / 15)
   \<and> post_update stof_dec API_TOKEN ''{"backgroundColor":"#110022"}'' 5 initial_target =
       (\<lparr>status = 200, content = ''OK''\<rparr>,
        initial_target\<lparr>tbackgroundColorRGB := (1 / 15, 0, 2 / 15),
          thaveElementColor := True, thaveBackgroundColor := True, updateTime := 5\<rparr>)
   \<and> tcolourLevel (initial_target\<lparr>tbackgroundColorRGB := (1 / 15, 0, 2 / 15),
          thaveElementColor := True, thaveBackgroundColor := True, updateTime := 5\<rparr>) = 30\<close>
proof -
  have x1: \<open>explicit_background ''{"colour":15}'' = None\<close>
    by code_simp
  have e1: \<open>post_update stof_dec API_TOKEN ''{"colour":15}'' 5 initial_target =
       (\<lparr>status = 200, content = ''OK''\<rparr>,
        initial_target\<lparr>tcolourLevel := 15, tbackgroundColorRGB := (0, 5 / 22, 32 / 55),
          thaveElementColor := True, thaveBackgroundColor := True, updateTime := 5\<rparr>)\<close>
    by code_simp
  have x2: \<open>explicit_background ''{"backgroundColor":"#110022"}'' = Some (1 / 15, 0, 2 / 15)\<close>
    by code_simp
  have e2: \<open>post_update stof_dec API_TOKEN ''{"backgroundColor":"#110022"}'' 5 initial_target =
       (\<lparr>status = 200, content = ''OK''\<rparr>,
        initial_target\<lparr>tbackgroundColorRGB := (1 / 15, 0, 2 / 15),
          thaveElementColor := True, thaveBackgroundColor := True, updateTime := 5\<rparr>)\<close>
    by code_simp
  have n2: \<open>extract_json_number stof_dec ''{"backgroundColor":"#110022"}'' ''colour'' = None\<close>
    by code_simp
  have m: "tmodeStr initial_target = ''heat''" "tcolourLevel initial_target = 30"
    by (simp_all add: initial_target_def)
  from heat_background_follows_colour [OF e1] heat_background_follows_colour [OF e2]
    x1 x2 e1 e2 n2 m
  show ?thesis by simp
qed

text \<open>
  C5. In custom mode (the handler takes every mode string other than "heat" as custom),
  an accepted request that supplies a colour level and no background colour of its own
  sets the target background colour to \<open>heat_colour_to_bg\<close> of that level; an accepted
  request that supplies neither leaves the target background colour as it was. The
  derivation is made once per request with a colour, not kept as a standing rule.
\<close>

theorem custom_colour_is_one_shot:
  assumes "post_update stof token b t s = (r, s')"
    and "status r = 200"
    and "tmodeStr s' \<noteq> ''heat''"
    and "explicit_background b = None"
  shows "(\<forall>col. extract_json_number stof b ''colour'' = Some col \<longrightarrow>
            tbackgroundColorRGB s' = heat_colour_to_bg col)
       \<and> (extract_json_number stof b ''colour'' = None \<longrightarrow>
            tbackgroundColorRGB s' = tbackgroundColorRGB s)"
proof -
  let ?h = "apply_fields stof b (enter s)"
  from assms(1,2) have s': "s' = target_state.truncate ((enforce_mode ?h)\<lparr>updateTime := t\<rparr>)"
    by (rule post_update_accepted)
  have custom: "tmodeStr ?h \<noteq> ''heat''"
    using assms(3) by (simp add: s' target_state.defs enforce_mode_tmodeStr)
  show ?thesis
    using custom assms(4) apply_fields_gotBackgroundColor [of stof b s]
      apply_fields_gotColour [of stof b s] apply_fields_tbackgroundColorRGB [of stof b s]
      apply_fields_tcolourLevel [of stof b s]
    by (auto simp: s' target_state.defs enforce_mode_def Let_def)
qed

theorem custom_colour_is_one_shot_witness:
  \<open>post_update stof_dec API_TOKEN ''{"colour":80}'' 5 custom_square =
     (\<lparr>status = 200, content = ''OK''\<rparr>,
      custom_square\<lparr>tcolourLevel := 80, tbackgroundColorRGB := heat_colour_to_bg 80,
        thaveBackgroundColor := True, updateTime := 5\<rparr>)
   \<and> post_update stof_dec API_TOKEN ''{"width":10}'' 6
       (custom_square\<lparr>tcolourLevel := 80, tbackgroundColorRGB := (1, 10 / 17, 0),
          thaveBackgroundColor := True, updateTime := 5\<rparr>) =
     (\<lparr>status = 200, content = ''OK''\<rparr>,
      custom_square\<lparr>tcolourLevel := 80, telementWidth := 10,
        tbackgroundColorRGB := (1, 10 / 17, 0), thaveBackgroundColor := True, updateTime := 6\<rparr>)
   \<and> heat_colour_to_bg 80 = (1, 10 / 17, 0)\<close>
proof -
  have e1: \<open>post_update stof_dec API_TOKEN ''{"colour":80}'' 5 custom_square =
     (\<lparr>status = 200, content = ''OK''\<rparr>,
      custom_square\<lparr>tcolourLevel := 80, tbackgroundColorRGB := (1, 10 / 17, 0),
        thaveBackgroundColor := True, updateTime := 5\<rparr>)\<close>
    by code_simp
  have e2: \<open>post_update stof_dec API_TOKEN ''{"width":10}'' 6
       (custom_square\<lparr>tcolourLevel := 80, tbackgroundColorRGB := (1, 10 / 17, 0),
          thaveBackgroundColor := True, updateTime := 5\<rparr>) =
     (\<lparr>status = 200, content = ''OK''\<rparr>,
      custom_square\<lparr>tcolourLevel := 80, telementWidth := 10,
        tbackgroundColorRGB := (1, 10 / 17, 0), thaveBackgroundColor := True, updateTime := 6\<rparr>)\<close>
    by code_simp
  have x: \<open>explicit_background ''{"colour":80}'' = None\<close> \<open>explicit_background ''{"width":10}'' = None\<close>
    \<open>extract_json_number stof_dec ''{"colour":80}'' ''colour'' = Some 80\<close>
    \<open>extract_json_number stof_dec ''{"width":10}'' ''colour'' = None\<close>
    by code_simp+
  have m: "tmodeStr custom_square \<noteq> ''heat''"
    by (simp add: custom_square_def)
  from custom_colour_is_one_shot [OF e1] custom_colour_is_one_shot [OF e2] x m e1 e2
  show ?thesis by simp
qed

text \<open>Every body with a recognised field in the words of the specification is
  accepted.\<close>

lemma recognized_field_counted: "spec_recognized_field stof b \<Longrightarrow> counted_field stof b"
  by (auto simp: spec_recognized_field_def counted_field_def present_def split: option.splits)

lemma recognized_field_accepted:
  "spec_recognized_field stof b \<Longrightarrow>
   fst (post_update stof API_TOKEN b t s) = \<lparr>status = 200, content = ''OK''\<rparr>"
  by (simp add: post_update_response recognized_field_counted)

text \<open>The colours the handler stores have their channels between 0 and 1.\<close>

lemma hex2_range: "hex2 c \<le> 15"
  by (simp add: hex2_def Let_def)

lemma byte_range:
  assumes "0 \<le> a" "a \<le> 15" "0 \<le> b" "b \<le> 15"
  shows "0 \<le> push_bit 4 a OR b \<and> push_bit 4 a OR b \<le> (255::int)"
proof -
  have "push_bit 4 a OR b < 2 ^ 8"
    using assms by (intro OR_upper) (simp_all add: push_bit_eq_mult)
  moreover have "0 \<le> push_bit 4 a OR b"
    using assms by simp
  ultimately show ?thesis by simp
qed

lemma channel_range:
  assumes "0 \<le> a" "a \<le> 15" "0 \<le> b" "b \<le> 15"
  shows "0 \<le> real_of_int (push_bit 4 a OR b) / 255 \<and> real_of_int (push_bit 4 a OR b) / 255 \<le> 1"
  using byte_range [OF assms] by simp

lemma parse_hex_color_range: "parse_hex_color hex = Some c \<Longrightarrow> unit_rgb c"
  using hex2_range channel_range
  by (auto simp: parse_hex_color_def Let_def unit_rgb_def not_less split: if_splits)

lemma heat_colour_to_bg_range: "unit_rgb (heat_colour_to_bg l)"
  by (auto simp: heat_colour_to_bg_def clamp_def Let_def unit_rgb_def field_simps)

lemma apply_fields_telementColorRGB:
  "telementColorRGB (apply_fields stof b (enter s)) =
     (case explicit_element b of None \<Rightarrow> telementColorRGB s | Some rgb \<Rightarrow> rgb)"
  by (simp add: apply_fields_def split: option.splits)

lemma explicit_element_range: "explicit_element b = Some c \<Longrightarrow> unit_rgb c"
  by (auto simp: explicit_element_def parse_hex_color_range split: option.splits)

lemma explicit_background_range: "explicit_background b = Some c \<Longrightarrow> unit_rgb c"
  by (auto simp: explicit_background_def parse_hex_color_range split: option.splits)

lemma post_update_colours_in_range:
  assumes "unit_rgb (telementColorRGB s)" "unit_rgb (tbackgroundColorRGB s)"
  shows "unit_rgb (telementColorRGB (snd (post_update stof token b t s)))
       \<and> unit_rgb (tbackgroundColorRGB (snd (post_update stof token b t s)))"
proof -
  let ?h = "apply_fields stof b (enter s)"
  have e: "unit_rgb (telementColorRGB ?h)"
    using assms(1) explicit_element_range [of b]
    by (simp add: apply_fields_telementColorRGB split: option.splits)
  have g: "unit_rgb (tbackgroundColorRGB ?h)"
    using assms(2) explicit_background_range [of b]
    by (simp add: apply_fields_tbackgroundColorRGB split: option.splits)
  have w: "unit_rgb (1, 1, 1)"
    by (simp add: unit_rgb_def)
  have "unit_rgb (telementColorRGB (enforce_mode ?h)) \<and> unit_rgb (tbackgroundColorRGB (enforce_mode ?h))"
    using e g w by (simp add: enforce_mode_def Let_def heat_colour_to_bg_range)
  with assms show ?thesis
    by (simp add: post_update_def Let_def target_state.defs)
qed

text \<open>Width and percent are clamped where they are stored, so they stay in range.\<close>

lemma post_update_width_percent_in_range:
  assumes "0 \<le> telementWidth s" "telementWidth s \<le> 100" "0 \<le> tpercent s" "tpercent s \<le> 1"
  shows "0 \<le> telementWidth (snd (post_update stof token b t s))
       \<and> telementWidth (snd (post_update stof token b t s)) \<le> 100
       \<and> 0 \<le> tpercent (snd (post_update stof token b t s))
       \<and> tpercent (snd (post_update stof token b t s)) \<le> 1"
  using assms clamp_in_range [of 0 100] clamp_in_range [of 0 1]
  by (simp add: post_update_def Let_def target_state.defs enforce_mode_width_percent
      apply_fields_telementWidth apply_fields_tpercent split: option.splits)

subsection \<open>The interpolation block over the reals\<close>

lemma chase_chased: "0 \<le> step \<Longrightarrow> chased step x tx (chase step x tx)"
  by (auto simp: chased_def chase_def clamp_def)

lemma ANIMSTEP_dt: "0 \<le> dt \<Longrightarrow> 0 \<le> ANIMSTEP * dt"
  by (simp add: ANIMSTEP_def)

lemma interpolate_fields:
  "colourLevel (interpolate dt tg lv) = chase (ANIMSTEP * dt) (colourLevel lv) (tcolourLevel tg)"
  "elementWidth (interpolate dt tg lv) = chase (ANIMSTEP * dt) (elementWidth lv) (telementWidth tg)"
  "percent (interpolate dt tg lv) = chase (ANIMSTEP * dt) (percent lv) (tpercent tg)"
  "elementColorRGB (interpolate dt tg lv) = chase_rgb (2 * dt) (elementColorRGB lv) (telementColorRGB tg)"
  "backgroundColorRGB (interpolate dt tg lv) =
     chase_rgb (2 * dt) (backgroundColorRGB lv) (tbackgroundColorRGB tg)"
  "i < SEGMENTS \<Longrightarrow>
     segment (interpolate dt tg lv) ! i = chase (ANIMSTEP * dt) (segment lv ! i) (tsegment tg ! i)"
  "length (segment (interpolate dt tg lv)) = SEGMENTS"
  by (simp_all add: interpolate_def)

lemma frame_dt_bounds: "0 \<le> frame_dt elapsed \<and> frame_dt elapsed \<le> 0.1"
  by (simp add: frame_dt_def clamp_def)

lemma chase_funpow:
  "0 \<le> step \<Longrightarrow> x + real n * step \<le> tx \<Longrightarrow>
   ((\<lambda>y. chase step y tx) ^^ n) x = x + real n * step"
proof (induction n)
  case 0
  show ?case by simp
next
  case (Suc n)
  from Suc.prems have le: "x + real n * step \<le> tx - step"
    by (simp add: algebra_simps)
  with Suc.prems(1) have "x + real n * step \<le> tx" by linarith
  with Suc have "((\<lambda>y. chase step y tx) ^^ n) x = x + real n * step" by simp
  with le Suc.prems(1) show ?case
    by (simp add: chase_def clamp_def algebra_simps)
qed

lemma chase_in_range:
  "0 \<le> step \<Longrightarrow> lo \<le> x \<Longrightarrow> x \<le> hi \<Longrightarrow> lo \<le> tx \<Longrightarrow> tx \<le> hi \<Longrightarrow>
   lo \<le> chase step x tx \<and> chase step x tx \<le> hi"
  by (auto simp: chase_def clamp_def)

lemma colourLevel_funpow:
  "colourLevel ((interpolate dt tg ^^ n) lv) =
   ((\<lambda>y. chase (ANIMSTEP * dt) y (tcolourLevel tg)) ^^ n) (colourLevel lv)"
  by (induction n) (simp_all add: interpolate_fields)

text \<open>
  C6. The claim: every numeric field of the target and of the live state stays in its
  range, a value out of range being clamped when the request is accepted. The handler
  clamps width and percent, and stores the colour level as \<open>stof\<close> returned it: the body
  \<^verbatim>\<open>{"colour": 500}\<close> is accepted and leaves the target colour level at 500, and the
  live colour level follows it past 100 (110 after 80 frames of 25 ms from the initial
  live state).
\<close>

theorem colour_level_stored_unclamped:
  \<open>post_update stof_dec API_TOKEN ''{"colour": 500}'' 5 initial_target =
     (\<lparr>status = 200, content = ''OK''\<rparr>,
      initial_target\<lparr>tcolourLevel := 500, tbackgroundColorRGB := (1, 0, 0),
        thaveElementColor := True, thaveBackgroundColor := True, updateTime := 5\<rparr>)
   \<and> colourLevel ((interpolate (frame_dt 0.025)
         (snd (post_update stof_dec API_TOKEN ''{"colour": 500}'' 5 initial_target)) ^^ 80)
         initial_live) = 110\<close>
proof -
  have e: \<open>post_update stof_dec API_TOKEN ''{"colour": 500}'' 5 initial_target =
     (\<lparr>status = 200, content = ''OK''\<rparr>,
      initial_target\<lparr>tcolourLevel := 500, tbackgroundColorRGB := (1, 0, 0),
        thaveElementColor := True, thaveBackgroundColor := True, updateTime := 5\<rparr>)\<close>
    by code_simp
  have t: \<open>tcolourLevel (snd (post_update stof_dec API_TOKEN ''{"colour": 500}'' 5 initial_target))
      = 500\<close>
    by (simp add: e)
  have l: "colourLevel initial_live = 30"
    by (simp add: initial_live_def)
  have d: "ANIMSTEP * frame_dt 0.025 = 1"
    by (simp add: ANIMSTEP_def frame_dt_def clamp_def)
  have "((\<lambda>y. chase 1 y 500) ^^ 80) 30 = 30 + real 80 * 1"
    by (rule chase_funpow) simp_all
  then have \<open>colourLevel ((interpolate (frame_dt 0.025)
         (snd (post_update stof_dec API_TOKEN ''{"colour": 500}'' 5 initial_target)) ^^ 80)
         initial_live) = 110\<close>
    unfolding colourLevel_funpow t l d by simp
  with e show ?thesis by simp
qed

subsection \<open>Rounding to binary32\<close>

lemma rne_of_int [simp]: "rne (of_int n) = n"
  by (simp add: rne_def)

lemma rne_mono: "a \<le> b \<Longrightarrow> rne a \<le> rne b"
proof -
  assume ab: "a \<le> b"
  have fl: "\<lfloor>a\<rfloor> \<le> \<lfloor>b\<rfloor>" using ab by (rule floor_mono)
  have ra: "rne a \<le> \<lfloor>a\<rfloor> + 1" by (simp add: rne_def Let_def)
  have rb: "\<lfloor>b\<rfloor> \<le> rne b" by (simp add: rne_def Let_def)
  show ?thesis
  proof (cases "\<lfloor>a\<rfloor> = \<lfloor>b\<rfloor>")
    case True
    with ab show ?thesis by (auto simp: rne_def Let_def)
  next
    case False
    with fl have "\<lfloor>a\<rfloor> + 1 \<le> \<lfloor>b\<rfloor>" by simp
    with ra rb show ?thesis by linarith
  qed
qed

lemma SIG_pos: "0 < SIG"
  by (simp add: SIG_def)

lemma rne_SIG: "of_int (rne SIG) = SIG"
proof -
  have e: "SIG = of_int 16777216" by (simp add: SIG_def)
  show ?thesis unfolding e rne_of_int by (rule refl)
qed

lemma rne_half_SIG: "of_int (rne (SIG / 2)) = SIG / 2"
proof -
  have e: "SIG / 2 = of_int 8388608" by (simp add: SIG_def)
  show ?thesis unfolding e rne_of_int by (rule refl)
qed

lemma min_ulp_pos: "0 < min_ulp"
  by (simp add: min_ulp_def)

lemma round_with_0 [simp]: "round_with 0 m u = of_int (rne (m / u)) * u"
  by (simp add: round_with_def)

lemma round_with_Suc:
  "round_with (Suc k) m u =
     (if m < u * SIG then of_int (rne (m / u)) * u else round_with k m (2 * u))"
  by (simp add: round_with_def)

lemma rne_grid_lower:
  assumes "0 < u" "u * (SIG / 2) \<le> m"
  shows "u * (SIG / 2) \<le> of_int (rne (m / u)) * u"
proof -
  have "SIG / 2 \<le> m / u"
    using assms by (simp add: pos_le_divide_eq mult.commute)
  then have "rne (SIG / 2) \<le> rne (m / u)"
    by (rule rne_mono)
  then have "(of_int (rne (SIG / 2)) :: real) \<le> of_int (rne (m / u))"
    by (simp only: of_int_le_iff)
  then have "SIG / 2 \<le> of_int (rne (m / u))"
    by (simp only: rne_half_SIG)
  with assms(1) have "u * (SIG / 2) \<le> u * of_int (rne (m / u))"
    by (intro mult_left_mono) simp_all
  then show ?thesis by (simp only: mult.commute)
qed

lemma rne_grid_upper:
  assumes "0 < u" "m < u * SIG"
  shows "of_int (rne (m / u)) * u \<le> u * SIG"
proof -
  have "m / u \<le> SIG"
    using assms by (simp add: pos_divide_le_eq mult.commute)
  then have "rne (m / u) \<le> rne SIG"
    by (rule rne_mono)
  then have "(of_int (rne (m / u)) :: real) \<le> of_int (rne SIG)"
    by (simp only: of_int_le_iff)
  then have "of_int (rne (m / u)) \<le> SIG"
    by (simp only: rne_SIG)
  with assms(1) have "u * of_int (rne (m / u)) \<le> u * SIG"
    by (intro mult_left_mono) simp_all
  then show ?thesis by (simp only: mult.commute)
qed

lemma round_with_lower:
  "0 < u \<Longrightarrow> u * (SIG / 2) \<le> m \<Longrightarrow> u * (SIG / 2) \<le> round_with k m u"
proof (induction k arbitrary: u)
  case 0
  with rne_grid_lower [OF 0] show ?case by simp
next
  case (Suc k)
  show ?case
  proof (cases "m < u * SIG")
    case True
    with rne_grid_lower [OF Suc.prems] show ?thesis by (simp add: round_with_Suc)
  next
    case False
    then have "2 * u * (SIG / 2) \<le> m" by simp
    with Suc.prems(1) have "2 * u * (SIG / 2) \<le> round_with k m (2 * u)"
      by (intro Suc.IH) simp_all
    moreover have "u * (SIG / 2) \<le> 2 * u * (SIG / 2)"
      using Suc.prems(1) SIG_pos by simp
    ultimately have "u * (SIG / 2) \<le> round_with k m (2 * u)"
      by (rule order_trans [rotated])
    with False show ?thesis by (simp only: round_with_Suc if_False)
  qed
qed

lemma rne_grid_mono:
  assumes "0 < u" "m1 \<le> m2"
  shows "of_int (rne (m1 / u)) * u \<le> of_int (rne (m2 / u)) * (u::real)"
proof -
  have "m1 / u \<le> m2 / u" using assms by (simp add: divide_right_mono)
  then have "rne (m1 / u) \<le> rne (m2 / u)" by (rule rne_mono)
  with assms(1) show ?thesis by (simp add: mult_right_mono)
qed

lemma round_with_mono:
  "0 < u \<Longrightarrow> m1 \<le> m2 \<Longrightarrow> round_with k m1 u \<le> round_with k m2 u"
proof (induction k arbitrary: u)
  case 0
  then show ?case by (simp add: rne_grid_mono)
next
  case (Suc k)
  show ?case
  proof (cases "m2 < u * SIG")
    case True
    with Suc.prems show ?thesis by (simp add: round_with_Suc rne_grid_mono)
  next
    case hi: False
    show ?thesis
    proof (cases "m1 < u * SIG")
      case False
      with hi Suc.prems Suc.IH [of "2 * u"] show ?thesis by (simp add: round_with_Suc)
    next
      case True
      from hi have "2 * u * (SIG / 2) \<le> m2" by simp
      with Suc.prems(1) have "2 * u * (SIG / 2) \<le> round_with k m2 (2 * u)"
        by (intro round_with_lower) simp_all
      moreover from Suc.prems(1) True have "of_int (rne (m1 / u)) * u \<le> u * SIG"
        by (rule rne_grid_upper)
      ultimately show ?thesis using True hi by (simp add: round_with_Suc)
    qed
  qed
qed

lemma round_with_idem:
  "0 < u \<Longrightarrow> round_with k (round_with k m u) u = round_with k m u"
proof (induction k arbitrary: u)
  case 0
  then show ?case by simp
next
  case (Suc k)
  show ?case
  proof (cases "m < u * SIG")
    case False
    with Suc.prems have lo: "2 * u * (SIG / 2) \<le> round_with k m (2 * u)"
      by (intro round_with_lower) simp_all
    then have "\<not> round_with k m (2 * u) < u * SIG" by simp
    with False Suc.prems Suc.IH [of "2 * u"] show ?thesis by (simp add: round_with_Suc)
  next
    case True
    let ?y = "of_int (rne (m / u)) * u"
    have y: "round_with (Suc k) m u = ?y" using True by (simp add: round_with_Suc)
    have up: "?y \<le> u * SIG" using Suc.prems True by (intro rne_grid_upper)
    show ?thesis
    proof (cases "?y < u * SIG")
      case small: True
      have "round_with (Suc k) ?y u = ?y"
        using small Suc.prems by (simp add: round_with_Suc)
      then show ?thesis by (simp only: y)
    next
      case False
      with up have eq: "?y = 2 * u * (SIG / 2)" by simp
      have q: "2 * u * (SIG / 2) / (2 * u) = SIG / 2"
        using Suc.prems by simp
      have h: "2 * u * (SIG / 2) < 2 * u * SIG"
        using Suc.prems SIG_pos by simp
      have "round_with k (2 * u * (SIG / 2)) (2 * u) = 2 * u * (SIG / 2)"
      proof (cases k)
        case 0
        then show ?thesis by (simp only: round_with_0 q rne_half_SIG) simp
      next
        case (Suc k')
        then show ?thesis using h by (simp only: round_with_Suc q rne_half_SIG if_True) simp
      qed
      then have "round_with k ?y (2 * u) = ?y"
        by (simp only: eq)
      with False have "round_with (Suc k) ?y u = ?y"
        by (simp only: round_with_Suc if_False)
      then show ?thesis by (simp only: y)
    qed
  qed
qed

lemma rne_0 [simp]: "rne 0 = 0"
  by (simp add: rne_def)

lemma round_with_zero: "0 < u \<Longrightarrow> round_with k 0 u = 0"
  using SIG_pos by (induction k arbitrary: u) (simp_all add: round_with_Suc)


lemma ulp32_eq:
  assumes "j \<le> k" "m < u * 2 ^ j * SIG" "j = 0 \<or> u * 2 ^ j * (SIG / 2) \<le> m" "0 < u"
  shows "ulp32 k m u = u * 2 ^ j"
  using assms
proof (induction j arbitrary: k u)
  case 0
  then show ?case by (cases k) simp_all
next
  case (Suc j)
  then obtain k' where k: "k = Suc k'" "j \<le> k'" by (cases k) auto
  from Suc.prems(3) have lo: "u * SIG \<le> m"
  proof -
    have "u * SIG \<le> u * 2 ^ Suc j * (SIG / 2)"
      using \<open>0 < u\<close> SIG_pos by simp
    with Suc.prems(3) show ?thesis by simp
  qed
  have "ulp32 k' m (2 * u) = 2 * u * 2 ^ j"
  proof (rule Suc.IH [OF k(2)])
    show "m < 2 * u * 2 ^ j * SIG" using Suc.prems(2) by (simp add: mult_ac)
    show "j = 0 \<or> 2 * u * 2 ^ j * (SIG / 2) \<le> m" using Suc.prems(3) by (simp add: mult_ac)
    show "0 < 2 * u" using \<open>0 < u\<close> by simp
  qed
  with lo k show ?case by (simp add: mult_ac)
qed

lemma round_mag_eq:
  assumes "j \<le> 253" "m < min_ulp * 2 ^ j * SIG" "j = 0 \<or> min_ulp * 2 ^ j * (SIG / 2) \<le> m"
  shows "round_mag m = of_int (rne (m / (min_ulp * 2 ^ j))) * (min_ulp * 2 ^ j)"
proof -
  have "ulp32 253 m min_ulp = min_ulp * 2 ^ j"
    using assms min_ulp_pos by (intro ulp32_eq)
  then show ?thesis by (simp add: round_mag_def round_with_def Let_def)
qed

lemma round_mag_mono: "m1 \<le> m2 \<Longrightarrow> round_mag m1 \<le> round_mag m2"
  by (simp add: round_mag_def round_with_mono min_ulp_pos)

lemma round_mag_idem: "round_mag (round_mag m) = round_mag m"
  by (simp add: round_mag_def round_with_idem min_ulp_pos)

lemma round_mag_zero [simp]: "round_mag 0 = 0"
  by (simp add: round_mag_def round_with_zero min_ulp_pos)

lemma round_mag_nonneg: "0 \<le> m \<Longrightarrow> 0 \<le> round_mag m"
  using round_mag_mono [of 0 m] by simp

lemma HUGE32_pos: "0 < HUGE32"
  by (simp add: HUGE32_def)

lemma round32_0 [simp]: "round32 0 = Num 0"
  using HUGE32_pos by (simp add: round32_def)

lemma round32_neg: "round32 (- x) = f_neg (round32 x)"
  using round_mag_nonneg [of "\<bar>x\<bar>"] HUGE32_pos
  by (cases "x = 0") (auto simp: round32_def Let_def)

lemma round32_mono: "x \<le> y \<Longrightarrow> f_le (round32 x) (round32 y)"
proof -
  assume xy: "x \<le> y"
  have nx: "0 \<le> round_mag \<bar>x\<bar>" and ny: "0 \<le> round_mag \<bar>y\<bar>"
    by (simp_all add: round_mag_nonneg)
  consider "0 \<le> x" | "x < 0" "0 \<le> y" | "y < 0" by linarith
  then show ?thesis
  proof cases
    case 1
    with xy have "round_mag \<bar>x\<bar> \<le> round_mag \<bar>y\<bar>" by (intro round_mag_mono) simp
    with 1 xy nx ny HUGE32_pos show ?thesis by (auto simp: round32_def Let_def)
  next
    case 2
    with nx ny HUGE32_pos show ?thesis by (auto simp: round32_def Let_def)
  next
    case 3
    with xy have "round_mag \<bar>y\<bar> \<le> round_mag \<bar>x\<bar>" by (intro round_mag_mono) simp
    with 3 xy nx ny HUGE32_pos show ?thesis by (auto simp: round32_def Let_def)
  qed
qed

lemma round32_idem: "round32 x = Num y \<Longrightarrow> round32 y = Num y"
proof -
  assume r: "round32 x = Num y"
  have n: "0 \<le> round_mag \<bar>x\<bar>" by (simp add: round_mag_nonneg)
  from r have small: "\<not> HUGE32 \<le> round_mag \<bar>x\<bar>"
    by (auto simp: round32_def Let_def split: if_splits)
  from r small have y: "y = (if x < 0 then - round_mag \<bar>x\<bar> else round_mag \<bar>x\<bar>)"
    by (simp add: round32_def Let_def)
  then have a: "\<bar>y\<bar> = round_mag \<bar>x\<bar>" using n by auto
  have "round_mag \<bar>y\<bar> = round_mag \<bar>x\<bar>" by (simp add: a round_mag_idem)
  with small y n show ?thesis by (auto simp: round32_def Let_def)
qed


lemma finite32_round32: "round32 x = Num y \<Longrightarrow> finite32 (Num y)"
  by (simp add: finite32_def round32_idem)






lemma f_sub_Num: "f_sub (Num b) (Num a) = round32 (b - a)"
  by (simp add: f_sub_def)





lemma clamp32_range:
  assumes "0 \<le> s"
  shows "clamp32 d (Num (- s)) (Num s) = NaN \<and> d = NaN
       \<or> (\<exists>e. clamp32 d (Num (- s)) (Num s) = Num e \<and> - s \<le> e \<and> e \<le> s)"
  using assms by (cases d) (auto simp: clamp32_def)





lemma f_lt_NaN [simp]: "f_lt x NaN = False"
  by (cases x) simp_all

lemma f_add_NaN [simp]: "f_add x NaN = NaN"
  by (cases x) simp_all

lemma clamp32_NaN: "clamp32 NaN lo hi = NaN"
  by (simp add: clamp32_def)

lemma chase32_NaN_target: "chase32 lo hi x NaN = NaN"
  by (simp add: chase32_def f_sub_def clamp32_NaN)

lemma chase32_NaN_live: "chase32 lo hi NaN tx = NaN"
  by (simp add: chase32_def)



lemma f_mul_nonneg: "0 \<le> r \<Longrightarrow> 0 \<le> d \<Longrightarrow> f_le (Num 0) (f_mul (Num r) (Num d))"
  using round32_mono [of 0 "r * d"] by simp

lemma f_mul_neg_Num: "f_mul (f_neg (Num r)) (Num d) = f_neg (f_mul (Num r) (Num d))"
  using round32_neg [of "r * d"] by simp

lemma round32_eq:
  assumes "j \<le> 253" "\<bar>x\<bar> < min_ulp * 2 ^ j * SIG" "j = 0 \<or> min_ulp * 2 ^ j * (SIG / 2) \<le> \<bar>x\<bar>"
    and "rne (\<bar>x\<bar> / (min_ulp * 2 ^ j)) = n"
    and "of_int n * (min_ulp * 2 ^ j) < HUGE32"
  shows "round32 x = Num (if x < 0 then - (of_int n * (min_ulp * 2 ^ j)) else of_int n * (min_ulp * 2 ^ j))"
proof -
  have "round_mag \<bar>x\<bar> = of_int n * (min_ulp * 2 ^ j)"
    using round_mag_eq [OF assms(1-3)] assms(4) by simp
  with assms(5) show ?thesis by (simp add: round32_def)
qed


lemma round32_step: "round32 (40 * (13421773 / 2 ^ 29)) = Num 1"
proof -
  have "rne (67108865 / 8) = 8388608"
    by (simp add: rne_def)
  with round32_eq [of 126 "40 * (13421773 / 2 ^ 29)" 8388608] show ?thesis
    by (simp add: min_ulp_def SIG_def HUGE32_def)
qed









subsection \<open>The interpolation block in binary32\<close>

lemma interpolate32_fields:
  "colourLevel32 (interpolate32 dt tg lv) =
     chase32 (f_mul (f_neg ANIMSTEP32) dt) (f_mul ANIMSTEP32 dt) (colourLevel32 lv) (tcolourLevel32 tg)"
  "elementWidth32 (interpolate32 dt tg lv) =
     chase32 (f_mul (f_neg ANIMSTEP32) dt) (f_mul ANIMSTEP32 dt) (elementWidth32 lv) (telementWidth32 tg)"
  "percent32 (interpolate32 dt tg lv) =
     chase32 (f_mul (f_neg ANIMSTEP32) dt) (f_mul ANIMSTEP32 dt) (percent32 lv) (tpercent32 tg)"
  "elementColorRGB32 (interpolate32 dt tg lv) =
     chase32_rgb (f_mul (f_neg (Num 2)) dt) (f_mul (Num 2) dt)
       (elementColorRGB32 lv) (telementColorRGB32 tg)"
  "backgroundColorRGB32 (interpolate32 dt tg lv) =
     chase32_rgb (f_mul (f_neg (Num 2)) dt) (f_mul (Num 2) dt)
       (backgroundColorRGB32 lv) (tbackgroundColorRGB32 tg)"
  "i < SEGMENTS \<Longrightarrow>
     segment32 (interpolate32 dt tg lv) ! i =
       chase32 (f_mul (f_neg ANIMSTEP32) dt) (f_mul ANIMSTEP32 dt) (segment32 lv ! i) (tsegment32 tg ! i)"
  by (simp_all add: interpolate32_def)

lemma frame_dt32_Num:
  "frame_dt32 (Num e) =
     Num (if e < 0 then 0 else if 13421773 / 2 ^ 27 < e then 13421773 / 2 ^ 27 else e)"
  by (simp add: frame_dt32_def clamp32_def)











text \<open>A NaN target makes the live value NaN, and a NaN live value stays NaN.\<close>

lemma interpolate32_NaN:
  "tpercent32 tg = NaN \<or> percent32 lv = NaN \<Longrightarrow> percent32 (interpolate32 dt tg lv) = NaN"
  by (auto simp: interpolate32_fields chase32_NaN_target chase32_NaN_live)




text \<open>
  The colour level in binary32: with a target of 500 and frames of 25 ms the live colour
  level rises by exactly 1 per frame, every value on the way being an integer that
  binary32 holds, and is 110 after 80 frames, as over the reals.
\<close>

lemma round32_nat:
  assumes "2 ^ k \<le> m" "m < 2 ^ (k + 1)" "k \<le> 23"
  shows "round32 (real m) = Num (real m)"
proof -
  define H :: real where "H = 2 ^ 23"
  define w :: real where "w = 2 ^ k / H"
  have u: "min_ulp * 2 ^ (k + 126) = w"
    by (simp add: w_def H_def min_ulp_def power_add)
  have S: "SIG = 2 * H"
    by (simp add: SIG_def H_def)
  have d: "H = 2 ^ k * 2 ^ (23 - k)"
    using assms(3) by (simp add: H_def flip: power_add)
  have Hpos: "0 < H" by (simp add: H_def)
  have q: "real m / w = of_int (int m * 2 ^ (23 - k))"
    unfolding w_def d by simp
  have e: "of_int (int m * 2 ^ (23 - k)) * w = real m"
    unfolding w_def d by simp
  have m1: "real m < 2 ^ (k + 1)"
    using assms(2) by (metis of_nat_less_iff of_nat_numeral of_nat_power)
  have m0: "(2::real) ^ k \<le> real m"
    using assms(1) by (metis of_nat_le_iff of_nat_numeral of_nat_power)
  have big: "(2::real) ^ (k + 1) \<le> 2 ^ 24"
    using assms(3) by (intro power_increasing) simp_all
  have wS: "w * SIG = 2 ^ (k + 1)" "w * (SIG / 2) = 2 ^ k"
    using Hpos by (simp_all add: w_def S)
  have "round32 (real m) =
      Num (if real m < 0 then - (of_int (int m * 2 ^ (23 - k)) * (min_ulp * 2 ^ (k + 126)))
           else of_int (int m * 2 ^ (23 - k)) * (min_ulp * 2 ^ (k + 126)))"
  proof (rule round32_eq)
    show "k + 126 \<le> 253" using assms(3) by simp
    show "\<bar>real m\<bar> < min_ulp * 2 ^ (k + 126) * SIG"
      unfolding u wS using m1 by simp
    show "k + 126 = 0 \<or> min_ulp * 2 ^ (k + 126) * (SIG / 2) \<le> \<bar>real m\<bar>"
      unfolding u wS using m0 by simp
    show "rne (\<bar>real m\<bar> / (min_ulp * 2 ^ (k + 126))) = int m * 2 ^ (23 - k)"
      unfolding u abs_of_nat q by (rule rne_of_int)
    have "real m < HUGE32" using m1 big by (simp add: HUGE32_def)
    then show "of_int (int m * 2 ^ (23 - k)) * (min_ulp * 2 ^ (k + 126)) < HUGE32"
      unfolding u e .
  qed
  then show ?thesis unfolding u e by simp
qed

lemma round32_small_nat:
  assumes "16 \<le> m" "m < 512"
  shows "round32 (real m) = Num (real m)"
proof -
  consider "m < 32" | "32 \<le> m" "m < 64" | "64 \<le> m" "m < 128" | "128 \<le> m" "m < 256"
    | "256 \<le> m" using assms by linarith
  then show ?thesis
  proof cases
    case 1 with assms round32_nat [of 4 m] show ?thesis by simp
  next
    case 2 with round32_nat [of 5 m] show ?thesis by simp
  next
    case 3 with round32_nat [of 6 m] show ?thesis by simp
  next
    case 4 with round32_nat [of 7 m] show ?thesis by simp
  next
    case 5 with assms round32_nat [of 8 m] show ?thesis by simp
  qed
qed

lemma chase32_colour_500:
  assumes "30 \<le> m" "m < 110"
  shows "chase32 (Num (- 1)) (Num 1) (Num (real m)) (Num 500) = Num (real (Suc m))"
proof -
  have "round32 (real (500 - m)) = Num (real (500 - m))"
    using assms by (intro round32_small_nat) simp_all
  then have a: "round32 (500 - real m) = Num (500 - real m)"
    using assms by (simp add: of_nat_diff)
  have "round32 (real (Suc m)) = Num (real (Suc m))"
    using assms by (intro round32_small_nat) simp_all
  then have b: "round32 (real m + 1) = Num (real m + 1)"
    by (simp add: add.commute)
  have c: "clamp32 (Num (500 - real m)) (Num (- 1)) (Num 1) = Num 1"
    using assms by (simp add: clamp32_def)
  show ?thesis
    by (simp only: chase32_def f_sub_Num a c f_add.simps b) simp
qed

lemma colour_steps_500:
  assumes "tcolourLevel32 tg = Num 500" "colourLevel32 lv = Num 30" "n \<le> 80"
    and "f_mul ANIMSTEP32 dt = Num 1" "f_mul (f_neg ANIMSTEP32) dt = Num (- 1)"
  shows "colourLevel32 ((interpolate32 dt tg ^^ n) lv) = Num (real (30 + n))"
  using assms(3)
proof (induction n)
  case 0
  then show ?case by (simp add: assms(2))
next
  case (Suc n)
  then have ih: "colourLevel32 ((interpolate32 dt tg ^^ n) lv) = Num (real (30 + n))" by simp
  have "chase32 (Num (- 1)) (Num 1) (Num (real (30 + n))) (Num 500) = Num (real (Suc (30 + n)))"
    using Suc.prems by (intro chase32_colour_500) simp_all
  then show ?case
    by (simp only: funpow.simps o_apply interpolate32_fields assms(1,4,5) ih) simp
qed

lemma colour_level_500_binary32:
  "colourLevel32 ((interpolate32 (frame_dt32 (Num (13421773 / 2 ^ 29)))
       (initial_target32\<lparr>tcolourLevel32 := Num 500\<rparr>) ^^ 80) initial_live32) = Num 110"
proof -
  have dt: "frame_dt32 (Num (13421773 / 2 ^ 29)) = Num (13421773 / 2 ^ 29)"
    by (simp add: frame_dt32_def clamp32_def)
  have hi: "f_mul ANIMSTEP32 (Num (13421773 / 2 ^ 29)) = Num 1"
    by (simp only: ANIMSTEP32_def f_mul.simps round32_step)
  have "f_mul (f_neg ANIMSTEP32) (Num (13421773 / 2 ^ 29))
      = f_neg (f_mul ANIMSTEP32 (Num (13421773 / 2 ^ 29)))"
    unfolding ANIMSTEP32_def by (rule f_mul_neg_Num)
  then have lo: "f_mul (f_neg ANIMSTEP32) (Num (13421773 / 2 ^ 29)) = Num (- 1)"
    by (simp only: hi f_neg.simps)
  have "colourLevel32 ((interpolate32 (Num (13421773 / 2 ^ 29))
       (initial_target32\<lparr>tcolourLevel32 := Num 500\<rparr>) ^^ 80) initial_live32)
      = Num (real (30 + 80))"
    using hi lo by (intro colour_steps_500) (simp_all add: initial_live32_def)
  then show ?thesis by (simp only: dt) simp
qed

subsection \<open>The heat gradient\<close>

lemma heat_mid:
  "33 < c \<Longrightarrow> c \<le> 66 \<Longrightarrow>
   heat_colour_to_bg c = ((c - 33) / 33, 0.6 + (c - 33) / 33 * 0.4, 1 - (c - 33) / 33)"
  by (simp add: heat_colour_to_bg_def clamp_def Let_def)

lemma heat_hot:
  "66 < c \<Longrightarrow> c \<le> 100 \<Longrightarrow> heat_colour_to_bg c = (1, 1 - (c - 66) / 34, 0)"
  by (simp add: heat_colour_to_bg_def clamp_def Let_def)

lemma heat_right_33:
  "(heat_colour_to_bg \<longlongrightarrow> (0, 3 / 5, 1)) (at_right 33)"
proof -
  let ?g = "\<lambda>c::real. ((c - 33) / 33, 0.6 + (c - 33) / 33 * 0.4, 1 - (c - 33) / 33)"
  have "(?g \<longlongrightarrow> ?g 33) (at_right 33)"
    by (intro tendsto_intros) simp_all
  moreover have "eventually (\<lambda>c. ?g c = heat_colour_to_bg c) (at_right 33)"
    unfolding eventually_at_right_field
    by (rule exI [of _ 66]) (simp add: heat_mid)
  ultimately have "(heat_colour_to_bg \<longlongrightarrow> ?g 33) (at_right 33)"
    by (rule Lim_transform_eventually)
  then show ?thesis by simp
qed

lemma heat_right_66:
  "(heat_colour_to_bg \<longlongrightarrow> (1, 1, 0)) (at_right 66)"
proof -
  let ?g = "\<lambda>c::real. (1::real, 1 - (c - 66) / 34, 0::real)"
  have "(?g \<longlongrightarrow> ?g 66) (at_right 66)"
    by (intro tendsto_intros) simp_all
  moreover have "eventually (\<lambda>c. ?g c = heat_colour_to_bg c) (at_right 66)"
    unfolding eventually_at_right_field
    by (rule exI [of _ 100]) (simp add: heat_hot)
  ultimately have "(heat_colour_to_bg \<longlongrightarrow> ?g 66) (at_right 66)"
    by (rule Lim_transform_eventually)
  then show ?thesis by simp
qed

text \<open>
  C7. The claim: the gradient is continuous at both breakpoints. At level 66 it is: the
  value there, (1, 1, 0), is the limit from above. At level 33 it is not: the value
  there, from the first formula, is (0, 0.5, 0.8), and the limit from above, from the
  second formula, is (0, 0.6, 1), so green jumps by 0.1 and blue by 0.2.
\<close>

theorem heat_gradient_breakpoints:
  "heat_colour_to_bg 33 = (0, 1 / 2, 4 / 5)
   \<and> (heat_colour_to_bg \<longlongrightarrow> (0, 3 / 5, 1)) (at_right 33)
   \<and> \<not> (heat_colour_to_bg \<longlongrightarrow> heat_colour_to_bg 33) (at_right 33)
   \<and> heat_colour_to_bg 66 = (1, 1, 0)
   \<and> (heat_colour_to_bg \<longlongrightarrow> heat_colour_to_bg 66) (at_right 66)"
proof -
  have v33: "heat_colour_to_bg 33 = (0, 1 / 2, 4 / 5)"
    by (simp add: heat_colour_to_bg_def clamp_def Let_def)
  have v66: "heat_colour_to_bg 66 = (1, 1, 0)"
    by (simp add: heat_colour_to_bg_def clamp_def Let_def)
  have "\<not> (heat_colour_to_bg \<longlongrightarrow> heat_colour_to_bg 33) (at_right 33)"
  proof
    assume "(heat_colour_to_bg \<longlongrightarrow> heat_colour_to_bg 33) (at_right 33)"
    with heat_right_33 have "heat_colour_to_bg 33 = (0, 3 / 5, 1)"
      using tendsto_unique [of "at_right (33::real)"] by force
    with v33 show False by simp
  qed
  with v33 v66 heat_right_33 heat_right_66 show ?thesis by simp
qed

subsection \<open>Field lookup by substring search\<close>

text \<open>
  C10. The helpers look a key up by searching the raw body for the quoted key name. In
  the body \<^verbatim>\<open>{"label":"colour","width":55}\<close> the only occurrence of \<^verbatim>\<open>"colour"\<close> is at
  position 9, where it is the string value of the key \<^verbatim>\<open>label\<close>; all the same the
  number helper finds the key \<^verbatim>\<open>colour\<close> and reads the text after the next colon, the
  value of \<^verbatim>\<open>width\<close>, and the handler stores 55 as the colour level (and derives the
  background colour from it).
\<close>

theorem key_found_inside_string_value:
  \<open>str_find ''{"label":"colour","width":55}'' (DQ # ''colour'' @ [DQ]) 0 = Some 9
   \<and> str_find ''{"label":"colour","width":55}'' (DQ # ''colour'' @ [DQ]) 10 = None
   \<and> extract_json_string ''{"label":"colour","width":55}'' ''label'' = Some ''colour''
   \<and> extract_json_number stof_dec ''{"label":"colour","width":55}'' ''colour'' = Some 55
   \<and> post_update stof_dec API_TOKEN ''{"label":"colour","width":55}'' 5 custom_square =
       (\<lparr>status = 200, content = ''OK''\<rparr>,
        custom_square\<lparr>tcolourLevel := 55, telementWidth := 55,
          tbackgroundColorRGB := heat_colour_to_bg 55, thaveBackgroundColor := True,
          updateTime := 5\<rparr>)\<close>
  by code_simp

end
